theory Spec2Isabelle
  imports Main "HOL-Library.Word" "HOL-Library.AList"
begin

section \<open>Machine types, errors and the host's arrays\<close>

text \<open>
  The shim runs inside the 64-bit game server: \<open>uintptr_t\<close> and \<open>size_t\<close> are 64-bit
  words, \<open>int\<close> and \<open>unsigned int\<close> are 32-bit words (\<open>sint\<close> reads a C \<open>int\<close>,
  \<open>-1\<close> is the word of all ones).  A pointer is the address it holds; a pointer that
  a function returns to Lua is an \<open>option\<close>, \<open>None\<close> being \<open>nullptr\<close> (Lua's nil).
\<close>

type_synonym uintptr = "64 word"
type_synonym cint = "32 word"
type_synonym cuint = "32 word"

datatype error = invalid_argument string

definition errorOutOfRange :: string where
  "errorOutOfRange = ''Index out of range''"

text \<open>
  One statically allocated array of the host: the value of the array pointer
  (\<open>(uintptr_t)Engine::items\<close>) and the size of its element (\<open>sizeof(*this)\<close>).  Both are
  fixed by the host binary and the struct declarations, so they are parameters here.
\<close>

record arena =
  base :: uintptr
  elemSize :: uintptr

text \<open>\<open>&array[i]\<close>: the index is widened to 64 bits by the caller (\<open>ucast\<close> for an
  \<open>unsigned int\<close>, \<open>scast\<close> for an \<open>int\<close>).\<close>

definition slot_ptr :: "arena \<Rightarrow> uintptr \<Rightarrow> uintptr" where
  "slot_ptr A i = base A + i * elemSize A"

text \<open>The arrays of \<open>Engine::\<close> and the capacity constants \<open>maxNumberOf...\<close>; the
  constants are compared with an \<open>unsigned int\<close>, hence converted to one.\<close>

record layout =
  Engine_itemTypes :: arena
  Engine_items :: arena
  Engine_vehicles :: arena
  Engine_accounts :: arena
  Engine_players :: arena
  Engine_humans :: arena
  Engine_bodies :: arena
  Engine_bonds :: arena
  Engine_streets :: arena
  Engine_streetIntersections :: arena
  maxNumberOfItemTypes :: cuint
  maxNumberOfItems :: cuint
  maxNumberOfVehicles :: cuint
  maxNumberOfAccounts :: cuint
  maxNumberOfPlayers :: cuint
  maxNumberOfHumans :: cuint
  maxNumberOfRigidBodies :: cuint
  maxNumberOfBonds :: cuint

subsection \<open>The records, with the fields that the code below reads or writes\<close>

record Account =
  Account_subRosaID :: cint
  Account_phoneNumber :: cint

record Player =
  Player_active :: cint
  Player_subRosaID :: cint
  Player_isBot :: cint
  Player_team :: cint
  Player_name :: string
  Player_humanID :: cint
  Player_accountID :: cint

record Bone =
  Bone_bodyID :: cint

text \<open>\<open>bones\<close> is an array of 16 inside the human, read at an index that was
  checked.\<close>

record Human =
  Human_active :: cint
  Human_playerID :: cint
  Human_vehicleID :: cint
  Human_bones :: "nat \<Rightarrow> Bone"
  Human_rightHandOccupied :: cint
  Human_rightHandItemID :: cint
  Human_leftHandOccupied :: cint
  Human_leftHandItemID :: cint
  Human_isGrabbingRight :: cint
  Human_grabbingRightHumanID :: cint
  Human_isGrabbingLeft :: cint
  Human_grabbingLeftHumanID :: cint

record Item =
  Item_active :: cint
  Item_grenadePrimerID :: cint
  Item_parentHumanID :: cint
  Item_parentItemID :: cint
  Item_bodyID :: cint

record Vehicle =
  Vehicle_lastDriverPlayerID :: cint
  Vehicle_bodyID :: cint

record Bullet =
  Bullet_playerID :: cint

record Bond =
  Bond_bodyID :: cint
  Bond_otherBodyID :: cint

record Street =
  Street_intersectionA :: cint
  Street_intersectionB :: cint

record StreetIntersection =
  streetEast :: cint
  streetSouth :: cint
  streetWest :: cint
  streetNorth :: cint

text \<open>
  The host's memory.  Records reached through a pointer live in a store keyed by
  address; the accounts, which the code scans by index from the array's first element,
  are the list of the array's \<open>maxNumberOfAccounts\<close> elements.  \<open>numStreets\<close> and
  \<open>numStreetIntersections\<close> are the live counts the host keeps.
\<close>

record engine =
  players :: "uintptr \<Rightarrow> Player"
  humans :: "uintptr \<Rightarrow> Human"
  items :: "uintptr \<Rightarrow> Item"
  accounts :: "Account list"
  numStreets :: cuint
  numStreetIntersections :: cuint

section \<open>Identity: \<open>getIndex\<close>\<close>

text \<open>\<open>((uintptr_t)this - (uintptr_t)Engine::xs) / sizeof(*this)\<close>, returned as \<open>int\<close>:
  unsigned 64-bit subtraction and division, then truncation to 32 bits.  No field of
  the record is read: the function takes the address alone.\<close>

definition Account_getIndex :: "layout \<Rightarrow> uintptr \<Rightarrow> cint" where
  "Account_getIndex L this =
     ucast ((this - base (Engine_accounts L)) div elemSize (Engine_accounts L))"

definition Player_getIndex :: "layout \<Rightarrow> uintptr \<Rightarrow> cint" where
  "Player_getIndex L this =
     ucast ((this - base (Engine_players L)) div elemSize (Engine_players L))"

definition Human_getIndex :: "layout \<Rightarrow> uintptr \<Rightarrow> cint" where
  "Human_getIndex L this =
     ucast ((this - base (Engine_humans L)) div elemSize (Engine_humans L))"

definition ItemType_getIndex :: "layout \<Rightarrow> uintptr \<Rightarrow> cint" where
  "ItemType_getIndex L this =
     ucast ((this - base (Engine_itemTypes L)) div elemSize (Engine_itemTypes L))"

definition Item_getIndex :: "layout \<Rightarrow> uintptr \<Rightarrow> cint" where
  "Item_getIndex L this =
     ucast ((this - base (Engine_items L)) div elemSize (Engine_items L))"

definition Vehicle_getIndex :: "layout \<Rightarrow> uintptr \<Rightarrow> cint" where
  "Vehicle_getIndex L this =
     ucast ((this - base (Engine_vehicles L)) div elemSize (Engine_vehicles L))"

definition RigidBody_getIndex :: "layout \<Rightarrow> uintptr \<Rightarrow> cint" where
  "RigidBody_getIndex L this =
     ucast ((this - base (Engine_bodies L)) div elemSize (Engine_bodies L))"




section \<open>\<open>getByIndex\<close>\<close>

text \<open>\<open>if (idx >= maxNumberOfItems) throw std::invalid_argument(errorOutOfRange);
  return &Engine::items[idx];\<close>  The index is an \<open>unsigned int\<close>; the comparison is
  unsigned.  The streets and the street intersections compare with the live count
  \<open>*Engine::numStreets\<close>, \<open>*Engine::numStreetIntersections\<close> instead of a constant.\<close>

definition itemTypes_getByIndex :: "layout \<Rightarrow> cuint \<Rightarrow> error + uintptr" where
  "itemTypes_getByIndex L idx =
     (if idx \<ge> maxNumberOfItemTypes L then Inl (invalid_argument errorOutOfRange)
      else Inr (slot_ptr (Engine_itemTypes L) (ucast idx)))"

definition items_getByIndex :: "layout \<Rightarrow> cuint \<Rightarrow> error + uintptr" where
  "items_getByIndex L idx =
     (if idx \<ge> maxNumberOfItems L then Inl (invalid_argument errorOutOfRange)
      else Inr (slot_ptr (Engine_items L) (ucast idx)))"

definition vehicles_getByIndex :: "layout \<Rightarrow> cuint \<Rightarrow> error + uintptr" where
  "vehicles_getByIndex L idx =
     (if idx \<ge> maxNumberOfVehicles L then Inl (invalid_argument errorOutOfRange)
      else Inr (slot_ptr (Engine_vehicles L) (ucast idx)))"

definition accounts_getByIndex :: "layout \<Rightarrow> cuint \<Rightarrow> error + uintptr" where
  "accounts_getByIndex L idx =
     (if idx \<ge> maxNumberOfAccounts L then Inl (invalid_argument errorOutOfRange)
      else Inr (slot_ptr (Engine_accounts L) (ucast idx)))"

definition players_getByIndex :: "layout \<Rightarrow> cuint \<Rightarrow> error + uintptr" where
  "players_getByIndex L idx =
     (if idx \<ge> maxNumberOfPlayers L then Inl (invalid_argument errorOutOfRange)
      else Inr (slot_ptr (Engine_players L) (ucast idx)))"

definition humans_getByIndex :: "layout \<Rightarrow> cuint \<Rightarrow> error + uintptr" where
  "humans_getByIndex L idx =
     (if idx \<ge> maxNumberOfHumans L then Inl (invalid_argument errorOutOfRange)
      else Inr (slot_ptr (Engine_humans L) (ucast idx)))"

definition rigidBodies_getByIndex :: "layout \<Rightarrow> cuint \<Rightarrow> error + uintptr" where
  "rigidBodies_getByIndex L idx =
     (if idx \<ge> maxNumberOfRigidBodies L then Inl (invalid_argument errorOutOfRange)
      else Inr (slot_ptr (Engine_bodies L) (ucast idx)))"

definition bonds_getByIndex :: "layout \<Rightarrow> cuint \<Rightarrow> error + uintptr" where
  "bonds_getByIndex L idx =
     (if idx \<ge> maxNumberOfBonds L then Inl (invalid_argument errorOutOfRange)
      else Inr (slot_ptr (Engine_bonds L) (ucast idx)))"

definition streets_getByIndex :: "layout \<Rightarrow> engine \<Rightarrow> cuint \<Rightarrow> error + uintptr" where
  "streets_getByIndex L e idx =
     (if idx \<ge> numStreets e then Inl (invalid_argument errorOutOfRange)
      else Inr (slot_ptr (Engine_streets L) (ucast idx)))"

definition intersections_getByIndex :: "layout \<Rightarrow> engine \<Rightarrow> cuint \<Rightarrow> error + uintptr" where
  "intersections_getByIndex L e idx =
     (if idx \<ge> numStreetIntersections e then Inl (invalid_argument errorOutOfRange)
      else Inr (slot_ptr (Engine_streetIntersections L) (ucast idx)))"

subsection \<open>The categories as one table\<close>

text \<open>The library tables that Lua sees (\<open>items.getByIndex\<close>, \<open>Item:getIndex\<close>, ...),
  indexed by category, so that a statement can range over every category.\<close>

datatype category =
  ItemTypes | Items | Vehicles | Accounts | Players | Humans | RigidBodies | Bonds
  | Streets | StreetIntersections

fun getByIndex :: "layout \<Rightarrow> engine \<Rightarrow> category \<Rightarrow> cuint \<Rightarrow> error + uintptr" where
  "getByIndex L e ItemTypes idx = itemTypes_getByIndex L idx"
| "getByIndex L e Items idx = items_getByIndex L idx"
| "getByIndex L e Vehicles idx = vehicles_getByIndex L idx"
| "getByIndex L e Accounts idx = accounts_getByIndex L idx"
| "getByIndex L e Players idx = players_getByIndex L idx"
| "getByIndex L e Humans idx = humans_getByIndex L idx"
| "getByIndex L e RigidBodies idx = rigidBodies_getByIndex L idx"
| "getByIndex L e Bonds idx = bonds_getByIndex L idx"
| "getByIndex L e Streets idx = streets_getByIndex L e idx"
| "getByIndex L e StreetIntersections idx = intersections_getByIndex L e idx"


fun array_of :: "layout \<Rightarrow> category \<Rightarrow> arena" where
  "array_of L ItemTypes = Engine_itemTypes L"
| "array_of L Items = Engine_items L"
| "array_of L Vehicles = Engine_vehicles L"
| "array_of L Accounts = Engine_accounts L"
| "array_of L Players = Engine_players L"
| "array_of L Humans = Engine_humans L"
| "array_of L RigidBodies = Engine_bodies L"
| "array_of L Bonds = Engine_bonds L"
| "array_of L Streets = Engine_streets L"
| "array_of L StreetIntersections = Engine_streetIntersections L"

text \<open>The categories whose \<open>getByIndex\<close> compares with a compile-time capacity, and
  that capacity.\<close>

fun capacity :: "layout \<Rightarrow> category \<Rightarrow> cuint option" where
  "capacity L ItemTypes = Some (maxNumberOfItemTypes L)"
| "capacity L Items = Some (maxNumberOfItems L)"
| "capacity L Vehicles = Some (maxNumberOfVehicles L)"
| "capacity L Accounts = Some (maxNumberOfAccounts L)"
| "capacity L Players = Some (maxNumberOfPlayers L)"
| "capacity L Humans = Some (maxNumberOfHumans L)"
| "capacity L RigidBodies = Some (maxNumberOfRigidBodies L)"
| "capacity L Bonds = Some (maxNumberOfBonds L)"
| "capacity L Streets = None"
| "capacity L StreetIntersections = None"

text \<open>The bound that \<open>getByIndex\<close> of a category compares the index with.\<close>

definition limit :: "layout \<Rightarrow> engine \<Rightarrow> category \<Rightarrow> cuint" where
  "limit L e c =
     (case capacity L c of
        Some n \<Rightarrow> n
      | None \<Rightarrow> (if c = Streets then numStreets e else numStreetIntersections e))"

text \<open>An array of \<open>n\<close> elements that lies within the address space: its element has a
  size, and its \<open>n\<close> elements take at most \<open>2^64\<close> bytes.\<close>

definition array_fits :: "arena \<Rightarrow> cuint \<Rightarrow> bool" where
  "array_fits A n = (0 < elemSize A \<and> unat n * unat (elemSize A) \<le> 2 ^ 64)"

section \<open>The shim's state, the host's functions and the script\<close>

text \<open>Lua values, as far as the code below builds or inspects them; a table is the
  list of its keys and values.\<close>

datatype luaval =
  LNil | LBool bool | LNumber int | LString string | LTable "(string \<times> luaval) list"

type_synonym luatable = "(string \<times> luaval) list"

text \<open>The redirects (\<open>subhook::Hook\<close> objects of \<open>Hooks::\<close>) that the code below
  removes for a scope, and the keys of \<open>Hooks::enabledKeys\<close>; the enumeration is
  declared in a header, only \<open>ResetGame\<close> is used here.\<close>

datatype hook =
  ResetGameHook | CreateItemHook | CreateVehicleHook | CreatePlayerHook
  | CreateHumanHook | DeletePlayerHook | DeleteHumanHook | DeleteItemHook

datatype EnableKeys = ResetGame | OtherKey nat

text \<open>What one invocation does that is visible outside it, in order: calls into the
  host, calls into the script, lines on the console, redirects removed and reinstated.\<close>

datatype engine_call =
  CallResetGame
  | CallCreateItem cint uintptr "uintptr option" uintptr
  | CallCreateRope uintptr uintptr
  | CallCreateVehicle cint uintptr "uintptr option" uintptr cint
  | CallCreatePlayer
  | CallCreateHuman uintptr uintptr cint
  | CallDeletePlayer cint
  | CallDeleteHuman cint
  | CallDeleteItem cint
  | CallDeleteVehicle cint

datatype action =
  EngineCall engine_call
  | LuaCall string cint
  | ConsoleLog string
  | HookRemove hook
  | HookInstall hook

text \<open>
  The state: the host's memory, the side-storage arrays (\<open>sol::table*\<close> per slot,
  \<open>None\<close> for \<open>nullptr\<close>), the enabled flags, which redirects are installed, and
  the actions of the invocation so far.
\<close>

record world =
  eng :: engine
  playerDataTables :: "cint \<Rightarrow> luatable option"
  humanDataTables :: "cint \<Rightarrow> luatable option"
  itemDataTables :: "cint \<Rightarrow> luatable option"
  vehicleDataTables :: "cint \<Rightarrow> luatable option"
  bodyDataTables :: "cint \<Rightarrow> luatable option"
  enabledKeys :: "EnableKeys \<Rightarrow> bool"
  hookInstalled :: "hook \<Rightarrow> bool"
  trace :: "action list"

text \<open>
  The host's own functions are not part of this code: each is a parameter, any function
  on the state that returns what the host returns (\<open>-1\<close> when it has no slot).
\<close>

record host =
  resetGame :: "world \<Rightarrow> world"
  createItem :: "cint \<Rightarrow> uintptr \<Rightarrow> uintptr option \<Rightarrow> uintptr \<Rightarrow> world \<Rightarrow> cint \<times> world"
  createRope :: "uintptr \<Rightarrow> uintptr \<Rightarrow> world \<Rightarrow> cint \<times> world"
  createVehicle ::
    "cint \<Rightarrow> uintptr \<Rightarrow> uintptr option \<Rightarrow> uintptr \<Rightarrow> cint \<Rightarrow> world \<Rightarrow> cint \<times> world"
  createPlayer :: "world \<Rightarrow> cint \<times> world"
  createHuman :: "uintptr \<Rightarrow> uintptr \<Rightarrow> cint \<Rightarrow> world \<Rightarrow> cint \<times> world"
  deletePlayer :: "cint \<Rightarrow> world \<Rightarrow> world"
  deleteHuman :: "cint \<Rightarrow> world \<Rightarrow> world"
  deleteItem :: "cint \<Rightarrow> world \<Rightarrow> world"
  deleteVehicle :: "cint \<Rightarrow> world \<Rightarrow> world"

text \<open>
  A call out of the shim, into the host or into the script.  The callee may change the
  host's memory, the side storage and the enabled flags, also by re-entering the shim.
  It leaves the redirects as it found them (each nested scope reinstates what it
  removed), and what it does is not an action of the calling invocation: the call
  itself is the action recorded.
\<close>

definition call_out :: "action \<Rightarrow> (world \<Rightarrow> 'a \<times> world) \<Rightarrow> world \<Rightarrow> 'a \<times> world" where
  "call_out a f w =
     (let (r, w') = f w
      in (r, w'\<lparr>hookInstalled := hookInstalled w, trace := trace w @ [a]\<rparr>))"

definition Engine_resetGame :: "host \<Rightarrow> world \<Rightarrow> world" where
  "Engine_resetGame H w = snd (call_out (EngineCall CallResetGame) (\<lambda>w. ((), resetGame H w)) w)"

definition Engine_createItem ::
  "host \<Rightarrow> cint \<Rightarrow> uintptr \<Rightarrow> uintptr option \<Rightarrow> uintptr \<Rightarrow> world \<Rightarrow> cint \<times> world" where
  "Engine_createItem H t pos vel rot =
     call_out (EngineCall (CallCreateItem t pos vel rot)) (createItem H t pos vel rot)"

definition Engine_createRope :: "host \<Rightarrow> uintptr \<Rightarrow> uintptr \<Rightarrow> world \<Rightarrow> cint \<times> world" where
  "Engine_createRope H pos rot = call_out (EngineCall (CallCreateRope pos rot)) (createRope H pos rot)"

definition Engine_createVehicle ::
  "host \<Rightarrow> cint \<Rightarrow> uintptr \<Rightarrow> uintptr option \<Rightarrow> uintptr \<Rightarrow> cint \<Rightarrow> world \<Rightarrow> cint \<times> world" where
  "Engine_createVehicle H t pos vel rot color =
     call_out (EngineCall (CallCreateVehicle t pos vel rot color))
       (createVehicle H t pos vel rot color)"

definition Engine_createPlayer :: "host \<Rightarrow> world \<Rightarrow> cint \<times> world" where
  "Engine_createPlayer H = call_out (EngineCall CallCreatePlayer) (createPlayer H)"

definition Engine_createHuman ::
  "host \<Rightarrow> uintptr \<Rightarrow> uintptr \<Rightarrow> cint \<Rightarrow> world \<Rightarrow> cint \<times> world" where
  "Engine_createHuman H pos rot playerID =
     call_out (EngineCall (CallCreateHuman pos rot playerID)) (createHuman H pos rot playerID)"

definition Engine_deletePlayer :: "host \<Rightarrow> cint \<Rightarrow> world \<Rightarrow> world" where
  "Engine_deletePlayer H i w =
     snd (call_out (EngineCall (CallDeletePlayer i)) (\<lambda>w. ((), deletePlayer H i w)) w)"

definition Engine_deleteHuman :: "host \<Rightarrow> cint \<Rightarrow> world \<Rightarrow> world" where
  "Engine_deleteHuman H i w =
     snd (call_out (EngineCall (CallDeleteHuman i)) (\<lambda>w. ((), deleteHuman H i w)) w)"

definition Engine_deleteItem :: "host \<Rightarrow> cint \<Rightarrow> world \<Rightarrow> world" where
  "Engine_deleteItem H i w =
     snd (call_out (EngineCall (CallDeleteItem i)) (\<lambda>w. ((), deleteItem H i w)) w)"

definition Engine_deleteVehicle :: "host \<Rightarrow> cint \<Rightarrow> world \<Rightarrow> world" where
  "Engine_deleteVehicle H i w =
     snd (call_out (EngineCall (CallDeleteVehicle i)) (\<lambda>w. ((), deleteVehicle H i w)) w)"

text \<open>
  \<open>subhook::ScopedHookRemove remove(&hook);\<close> around a body: the constructor removes
  the redirect and remembers whether there was one to remove, the destructor, on every
  way out of the scope, installs it again if it was removed.
\<close>

definition ScopedHookRemove :: "hook \<Rightarrow> (world \<Rightarrow> 'a \<times> world) \<Rightarrow> world \<Rightarrow> 'a \<times> world" where
  "ScopedHookRemove h body w =
     (let removed = hookInstalled w h;
          w1 = (if removed
                then w\<lparr>hookInstalled := (hookInstalled w)(h := False),
                       trace := trace w @ [HookRemove h]\<rparr>
                else w);
          (r, w2) = body w1;
          w3 = (if removed
                then w2\<lparr>hookInstalled := (hookInstalled w2)(h := True),
                        trace := trace w2 @ [HookInstall h]\<rparr>
                else w2)
      in (r, w3))"

section \<open>Script calls and the reset trampoline\<close>

text \<open>
  The result of calling a \<open>sol::protected_function\<close>: valid, with the values the
  script returned, or invalid, with the error's message (\<open>err.what()\<close>).  The script
  function \<open>hook.run\<close> is a parameter; \<open>None\<close> is \<open>sol::nil\<close>, no such function.
\<close>

datatype protected_function_result = Valid "luaval list" | Invalid string

type_synonym lua_function = "string \<Rightarrow> cint \<Rightarrow> world \<Rightarrow> protected_function_result \<times> world"

text \<open>\<open>(bool)res\<close>: the first returned value by Lua's truth (\<open>lua_toboolean\<close>): nil,
  false and no value at all are false, everything else is true.\<close>

fun truthy :: "luaval \<Rightarrow> bool" where
  "truthy LNil = False"
| "truthy (LBool b) = b"
| "truthy v = True"

fun as_bool :: "protected_function_result \<Rightarrow> bool" where
  "as_bool (Valid (v # vs)) = truthy v"
| "as_bool r = False"

definition Console_log :: "string \<Rightarrow> world \<Rightarrow> world" where
  "Console_log line w = w\<lparr>trace := trace w @ [ConsoleLog line]\<rparr>"

text \<open>The text \<open>printLuaError\<close> streams: a red banner, the message, a reset, each
  with its escape sequences (\<open>\033\<close> is the character 27, \<open>\n\<close> the character 10).\<close>

definition luaErrorText :: "string \<Rightarrow> string" where
  "luaErrorText what =
     CHR 0x1B # ''[41;1m Lua error '' @ CHR 0x1B # ''[0m'' @ CHR 0x0A # CHR 0x1B # ''[31m''
       @ what @ CHR 0x1B # ''[0m'' @ [CHR 0x0A]"

definition printLuaError :: "string \<Rightarrow> world \<Rightarrow> world" where
  "printLuaError what w = Console_log (luaErrorText what) w"

definition noLuaCallError :: "protected_function_result \<Rightarrow> world \<Rightarrow> bool \<times> world" where
  "noLuaCallError res w =
     (case res of
        Valid vs \<Rightarrow> (True, w)
      | Invalid what \<Rightarrow> (False, printLuaError what w))"

text \<open>\<open>func(name, reason)\<close>.\<close>

definition call_lua ::
  "lua_function \<Rightarrow> string \<Rightarrow> cint \<Rightarrow> world \<Rightarrow> protected_function_result \<times> world" where
  "call_lua func name reason = call_out (LuaCall name reason) (func name reason)"

text \<open>The part both revisions of \<open>hookAndReset\<close> share: the pre-callback, the
  original under its removed redirect unless vetoed, the post-callback.\<close>

definition hookAndReset_hooked :: "host \<Rightarrow> lua_function option \<Rightarrow> cint \<Rightarrow> world \<Rightarrow> world" where
  "hookAndReset_hooked H func reason w =
     (let (noParent, w1) =
            (case func of
               None \<Rightarrow> (False, w)
             | Some f \<Rightarrow>
                 (let (res, wa) = call_lua f ''ResetGame'' reason w;
                      (ok, wb) = noLuaCallError res wa
                  in (if ok then as_bool res else False, wb)))
      in if \<not> noParent then
           (let w2 = snd (ScopedHookRemove ResetGameHook
                            (\<lambda>w. ((), Engine_resetGame H w)) w1)
            in (case func of
                  None \<Rightarrow> w2
                | Some f \<Rightarrow>
                    (let (res, wc) = call_lua f ''PostResetGame'' reason w2
                     in snd (noLuaCallError res wc))))
         else w1)"

text \<open>The first revision of the file: no enabled flag.\<close>

definition hookAndReset_ungated :: "host \<Rightarrow> lua_function option \<Rightarrow> cint \<Rightarrow> world \<Rightarrow> world" where
  "hookAndReset_ungated H func reason w = hookAndReset_hooked H func reason w"

text \<open>The second revision: \<open>if (Hooks::enabledKeys[Hooks::EnableKeys::ResetGame]) {...}
  else { ScopedHookRemove remove(&Hooks::resetGameHook); Engine::resetGame(); }\<close>\<close>

definition hookAndReset :: "host \<Rightarrow> lua_function option \<Rightarrow> cint \<Rightarrow> world \<Rightarrow> world" where
  "hookAndReset H func reason w =
     (if enabledKeys w ResetGame then hookAndReset_hooked H func reason w
      else snd (ScopedHookRemove ResetGameHook (\<lambda>w. ((), Engine_resetGame H w)) w))"

section \<open>Side storage, creation and removal\<close>

text \<open>\<open>if (tables[i]) { delete tables[i]; tables[i] = nullptr; }\<close>\<close>

definition clear_slot :: "(cint \<Rightarrow> luatable option) \<Rightarrow> cint \<Rightarrow> (cint \<Rightarrow> luatable option)" where
  "clear_slot tables i = (if tables i \<noteq> None then tables(i := None) else tables)"

text \<open>\<open>if (!tables[index]) tables[index] = new sol::table(lua->lua_state(), sol::create);
  return *tables[index];\<close>  A new table is empty.\<close>

definition get_slot ::
  "(cint \<Rightarrow> luatable option) \<Rightarrow> cint \<Rightarrow> luatable \<times> (cint \<Rightarrow> luatable option)" where
  "get_slot tables index =
     (case tables index of
        None \<Rightarrow> ([], tables(index := Some []))
      | Some t \<Rightarrow> (t, tables))"

definition Player_getDataTable :: "layout \<Rightarrow> uintptr \<Rightarrow> world \<Rightarrow> luatable \<times> world" where
  "Player_getDataTable L this w =
     (let index = Player_getIndex L this;
          (t, tables) = get_slot (playerDataTables w) index
      in (t, w\<lparr>playerDataTables := tables\<rparr>))"

definition Human_getDataTable :: "layout \<Rightarrow> uintptr \<Rightarrow> world \<Rightarrow> luatable \<times> world" where
  "Human_getDataTable L this w =
     (let index = Human_getIndex L this;
          (t, tables) = get_slot (humanDataTables w) index
      in (t, w\<lparr>humanDataTables := tables\<rparr>))"

definition Item_getDataTable :: "layout \<Rightarrow> uintptr \<Rightarrow> world \<Rightarrow> luatable \<times> world" where
  "Item_getDataTable L this w =
     (let index = Item_getIndex L this;
          (t, tables) = get_slot (itemDataTables w) index
      in (t, w\<lparr>itemDataTables := tables\<rparr>))"

definition Vehicle_getDataTable :: "layout \<Rightarrow> uintptr \<Rightarrow> world \<Rightarrow> luatable \<times> world" where
  "Vehicle_getDataTable L this w =
     (let index = Vehicle_getIndex L this;
          (t, tables) = get_slot (vehicleDataTables w) index
      in (t, w\<lparr>vehicleDataTables := tables\<rparr>))"

definition RigidBody_getDataTable :: "layout \<Rightarrow> uintptr \<Rightarrow> world \<Rightarrow> luatable \<times> world" where
  "RigidBody_getDataTable L this w =
     (let index = RigidBody_getIndex L this;
          (t, tables) = get_slot (bodyDataTables w) index
      in (t, w\<lparr>bodyDataTables := tables\<rparr>))"

text \<open>\<open>id == -1 ? nullptr : &Engine::items[id]\<close>, the index an \<open>int\<close>.\<close>

definition slot_or_null :: "arena \<Rightarrow> cint \<Rightarrow> uintptr option" where
  "slot_or_null A i = (if i = - 1 then None else Some (slot_ptr A (scast i)))"

text \<open>
  \<open>items::createVel\<close>.  The scope of the removed redirect is the whole body, the
  \<open>throw\<close> included.  \<open>type\<close> is \<open>None\<close> when Lua passed nil.
\<close>

definition items_createVel ::
  "host \<Rightarrow> layout \<Rightarrow> uintptr option \<Rightarrow> uintptr \<Rightarrow> uintptr option \<Rightarrow> uintptr \<Rightarrow> world
     \<Rightarrow> (error + uintptr option) \<times> world" where
  "items_createVel H L type pos vel rot =
     ScopedHookRemove CreateItemHook (\<lambda>w.
       case type of
         None \<Rightarrow> (Inl (invalid_argument ''Cannot create item with nil type''), w)
       | Some t \<Rightarrow>
           (let (i, w1) = Engine_createItem H (ItemType_getIndex L t) pos vel rot w;
                w2 = (if i \<noteq> - 1
                      then w1\<lparr>itemDataTables := clear_slot (itemDataTables w1) i\<rparr>
                      else w1)
            in (Inr (slot_or_null (Engine_items L) i), w2)))"

definition items_create ::
  "host \<Rightarrow> layout \<Rightarrow> uintptr option \<Rightarrow> uintptr \<Rightarrow> uintptr \<Rightarrow> world
     \<Rightarrow> (error + uintptr option) \<times> world" where
  "items_create H L type pos rot = items_createVel H L type pos None rot"

text \<open>\<open>items::createRope\<close>: \<open>int id = Engine::createRope(pos, rot);
  return id == -1 ? nullptr : &Engine::items[id];\<close>\<close>

definition items_createRope ::
  "host \<Rightarrow> layout \<Rightarrow> uintptr \<Rightarrow> uintptr \<Rightarrow> world \<Rightarrow> uintptr option \<times> world" where
  "items_createRope H L pos rot w =
     (let (i, w1) = Engine_createRope H pos rot w
      in (slot_or_null (Engine_items L) i, w1))"

definition vehicles_createVel ::
  "host \<Rightarrow> layout \<Rightarrow> cint \<Rightarrow> uintptr \<Rightarrow> uintptr option \<Rightarrow> uintptr \<Rightarrow> cint \<Rightarrow> world
     \<Rightarrow> uintptr option \<times> world" where
  "vehicles_createVel H L type pos vel rot color =
     ScopedHookRemove CreateVehicleHook (\<lambda>w.
       let (i, w1) = Engine_createVehicle H type pos vel rot color w;
           w2 = (if i \<noteq> - 1
                 then w1\<lparr>vehicleDataTables := clear_slot (vehicleDataTables w1) i\<rparr>
                 else w1)
       in (slot_or_null (Engine_vehicles L) i, w2))"

text \<open>\<open>vehicles::create\<close> has the body of \<open>createVel\<close> with \<open>nullptr\<close> for the
  velocity.\<close>

definition vehicles_create ::
  "host \<Rightarrow> layout \<Rightarrow> cint \<Rightarrow> uintptr \<Rightarrow> uintptr \<Rightarrow> cint \<Rightarrow> world \<Rightarrow> uintptr option \<times> world" where
  "vehicles_create H L type pos rot color =
     ScopedHookRemove CreateVehicleHook (\<lambda>w.
       let (i, w1) = Engine_createVehicle H type pos None rot color w;
           w2 = (if i \<noteq> - 1
                 then w1\<lparr>vehicleDataTables := clear_slot (vehicleDataTables w1) i\<rparr>
                 else w1)
       in (slot_or_null (Engine_vehicles L) i, w2))"

text \<open>Writes through a pointer into the host's memory.\<close>

definition update_player :: "uintptr \<Rightarrow> (Player \<Rightarrow> Player) \<Rightarrow> world \<Rightarrow> world" where
  "update_player p f w = w\<lparr>eng := (eng w)\<lparr>players := (players (eng w))(p := f (players (eng w) p))\<rparr>\<rparr>"

definition update_human :: "uintptr \<Rightarrow> (Human \<Rightarrow> Human) \<Rightarrow> world \<Rightarrow> world" where
  "update_human p f w = w\<lparr>eng := (eng w)\<lparr>humans := (humans (eng w))(p := f (humans (eng w) p))\<rparr>\<rparr>"

text \<open>\<open>players::createBot\<close>; \<open>setName\<close> (declared in a header) stores the name.\<close>

definition players_createBot :: "host \<Rightarrow> layout \<Rightarrow> world \<Rightarrow> uintptr option \<times> world" where
  "players_createBot H L =
     ScopedHookRemove CreatePlayerHook (\<lambda>w.
       let (playerID, w1) = Engine_createPlayer H w
       in if playerID = - 1 then (None, w1)
          else
            (let w2 = w1\<lparr>playerDataTables := clear_slot (playerDataTables w1) playerID\<rparr>;
                 ply = slot_ptr (Engine_players L) (scast playerID);
                 w3 = update_player ply
                        (\<lambda>r. r\<lparr>Player_subRosaID := 0, Player_isBot := 1, Player_team := 6,
                                Player_name := ''Bot''\<rparr>) w2
             in (Some ply, w3)))"

text \<open>
  \<open>humans::create(pos, rot, ply)\<close>.  \<open>ply\<close> points into the players; the old human
  of the player, if it has one, is deleted under the removed delete redirect, the new
  one created under the removed create redirect.
\<close>

definition humans_create ::
  "host \<Rightarrow> layout \<Rightarrow> uintptr \<Rightarrow> uintptr \<Rightarrow> uintptr \<Rightarrow> world \<Rightarrow> uintptr option \<times> world" where
  "humans_create H L pos rot ply w =
     (let playerID = Player_getIndex L ply;
          w1 = (if Player_humanID (players (eng w) ply) \<noteq> - 1
                then snd (ScopedHookRemove DeleteHumanHook
                       (\<lambda>w. ((), Engine_deleteHuman H (Player_humanID (players (eng w) ply)) w)) w)
                else w);
          (humanID, w2) =
             ScopedHookRemove CreateHumanHook (Engine_createHuman H pos rot playerID) w1
      in if humanID = - 1 then (None, w2)
         else
           (let w3 = w2\<lparr>humanDataTables := clear_slot (humanDataTables w2) humanID\<rparr>;
                man = slot_ptr (Engine_humans L) (scast humanID);
                w4 = update_human man (\<lambda>r. r\<lparr>Human_playerID := playerID\<rparr>) w3;
                w5 = update_player ply (\<lambda>r. r\<lparr>Player_humanID := humanID\<rparr>) w4
            in (Some man, w5)))"

text \<open>The removals.  The redirect stays removed to the end of the body; \<open>Vehicle::remove\<close>
  removes no redirect.\<close>

definition Player_remove :: "host \<Rightarrow> layout \<Rightarrow> uintptr \<Rightarrow> world \<Rightarrow> world" where
  "Player_remove H L this w =
     (let index = Player_getIndex L this
      in snd (ScopedHookRemove DeletePlayerHook (\<lambda>w.
           let w1 = Engine_deletePlayer H index w
           in ((), w1\<lparr>playerDataTables := clear_slot (playerDataTables w1) index\<rparr>)) w))"

definition Human_remove :: "host \<Rightarrow> layout \<Rightarrow> uintptr \<Rightarrow> world \<Rightarrow> world" where
  "Human_remove H L this w =
     (let index = Human_getIndex L this
      in snd (ScopedHookRemove DeleteHumanHook (\<lambda>w.
           let w1 = Engine_deleteHuman H index w
           in ((), w1\<lparr>humanDataTables := clear_slot (humanDataTables w1) index\<rparr>)) w))"

definition Item_remove :: "host \<Rightarrow> layout \<Rightarrow> uintptr \<Rightarrow> world \<Rightarrow> world" where
  "Item_remove H L this w =
     (let index = Item_getIndex L this
      in snd (ScopedHookRemove DeleteItemHook (\<lambda>w.
           let w1 = Engine_deleteItem H index w
           in ((), w1\<lparr>itemDataTables := clear_slot (itemDataTables w1) index\<rparr>)) w))"

definition Vehicle_remove :: "host \<Rightarrow> layout \<Rightarrow> uintptr \<Rightarrow> world \<Rightarrow> world" where
  "Vehicle_remove H L this w =
     (let index = Vehicle_getIndex L this;
          w1 = Engine_deleteVehicle H index w
      in w1\<lparr>vehicleDataTables := clear_slot (vehicleDataTables w1) index\<rparr>)"

section \<open>Relationship accessors\<close>

text \<open>
  Each reads one \<open>int\<close> field of its record and returns a pointer into the array of
  the referenced category, or \<open>nullptr\<close>.  The accessors take the record the method
  is called on.
\<close>

definition Player_getHuman :: "layout \<Rightarrow> Player \<Rightarrow> uintptr option" where
  "Player_getHuman L this =
     (if Player_humanID this = - 1 then None
      else Some (slot_ptr (Engine_humans L) (scast (Player_humanID this))))"

text \<open>\<open>Account* Player::getAccount() { return &Engine::accounts[accountID]; }\<close>\<close>

definition Player_getAccount :: "layout \<Rightarrow> Player \<Rightarrow> uintptr option" where
  "Player_getAccount L this = Some (slot_ptr (Engine_accounts L) (scast (Player_accountID this)))"

text \<open>\<open>Player::setAccount\<close>: nil is refused, so the account of a player is never set
  to no value through the interface.\<close>

definition Player_setAccount :: "layout \<Rightarrow> uintptr option \<Rightarrow> Player \<Rightarrow> error + Player" where
  "Player_setAccount L account this =
     (case account of
        None \<Rightarrow> Inl (invalid_argument ''Cannot set account to nil value'')
      | Some a \<Rightarrow> Inr (this\<lparr>Player_accountID := Account_getIndex L a\<rparr>))"

definition Human_getPlayer :: "layout \<Rightarrow> Human \<Rightarrow> uintptr option" where
  "Human_getPlayer L this =
     (if Human_playerID this = - 1 then None
      else Some (slot_ptr (Engine_players L) (scast (Human_playerID this))))"

definition Human_getVehicle :: "layout \<Rightarrow> Human \<Rightarrow> uintptr option" where
  "Human_getVehicle L this =
     (if Human_vehicleID this = - 1 then None
      else Some (slot_ptr (Engine_vehicles L) (scast (Human_vehicleID this))))"

text \<open>\<open>if (idx > 15) throw std::invalid_argument(errorOutOfRange);
  return &Engine::bodies[bones[idx].bodyID];\<close>\<close>

definition Human_getRigidBody :: "layout \<Rightarrow> Human \<Rightarrow> cuint \<Rightarrow> error + uintptr" where
  "Human_getRigidBody L this idx =
     (if idx > 15 then Inl (invalid_argument errorOutOfRange)
      else Inr (slot_ptr (Engine_bodies L) (scast (Bone_bodyID (Human_bones this (unat idx))))))"

text \<open>The hands: \<open>if (!rightHandOccupied) return nullptr;
  return &Engine::items[rightHandItemID];\<close>  A flag decides, not the stored index.\<close>

definition Human_getRightHandItem :: "layout \<Rightarrow> Human \<Rightarrow> uintptr option" where
  "Human_getRightHandItem L this =
     (if Human_rightHandOccupied this = 0 then None
      else Some (slot_ptr (Engine_items L) (scast (Human_rightHandItemID this))))"

definition Human_getLeftHandItem :: "layout \<Rightarrow> Human \<Rightarrow> uintptr option" where
  "Human_getLeftHandItem L this =
     (if Human_leftHandOccupied this = 0 then None
      else Some (slot_ptr (Engine_items L) (scast (Human_leftHandItemID this))))"

definition Human_getRightHandGrab :: "layout \<Rightarrow> Human \<Rightarrow> uintptr option" where
  "Human_getRightHandGrab L this =
     (if Human_isGrabbingRight this = 0 then None
      else Some (slot_ptr (Engine_humans L) (scast (Human_grabbingRightHumanID this))))"

definition Human_getLeftHandGrab :: "layout \<Rightarrow> Human \<Rightarrow> uintptr option" where
  "Human_getLeftHandGrab L this =
     (if Human_isGrabbingLeft this = 0 then None
      else Some (slot_ptr (Engine_humans L) (scast (Human_grabbingLeftHumanID this))))"

definition Item_getGrenadePrimer :: "layout \<Rightarrow> Item \<Rightarrow> uintptr option" where
  "Item_getGrenadePrimer L this =
     (if Item_grenadePrimerID this = - 1 then None
      else Some (slot_ptr (Engine_players L) (scast (Item_grenadePrimerID this))))"

definition Item_getParentHuman :: "layout \<Rightarrow> Item \<Rightarrow> uintptr option" where
  "Item_getParentHuman L this =
     (if Item_parentHumanID this = - 1 then None
      else Some (slot_ptr (Engine_humans L) (scast (Item_parentHumanID this))))"

definition Item_getParentItem :: "layout \<Rightarrow> Item \<Rightarrow> uintptr option" where
  "Item_getParentItem L this =
     (if Item_parentItemID this = - 1 then None
      else Some (slot_ptr (Engine_items L) (scast (Item_parentItemID this))))"

text \<open>\<open>RigidBody* Item::getRigidBody() const { return &Engine::bodies[bodyID]; }\<close>\<close>

definition Item_getRigidBody :: "layout \<Rightarrow> Item \<Rightarrow> uintptr option" where
  "Item_getRigidBody L this = Some (slot_ptr (Engine_bodies L) (scast (Item_bodyID this)))"

definition Vehicle_getLastDriver :: "layout \<Rightarrow> Vehicle \<Rightarrow> uintptr option" where
  "Vehicle_getLastDriver L this =
     (if Vehicle_lastDriverPlayerID this = - 1 then None
      else Some (slot_ptr (Engine_players L) (scast (Vehicle_lastDriverPlayerID this))))"

definition Vehicle_getRigidBody :: "layout \<Rightarrow> Vehicle \<Rightarrow> uintptr option" where
  "Vehicle_getRigidBody L this = Some (slot_ptr (Engine_bodies L) (scast (Vehicle_bodyID this)))"

definition Bullet_getPlayer :: "layout \<Rightarrow> Bullet \<Rightarrow> uintptr option" where
  "Bullet_getPlayer L this =
     (if Bullet_playerID this = - 1 then None
      else Some (slot_ptr (Engine_players L) (scast (Bullet_playerID this))))"

text \<open>\<open>RigidBody* Bond::getBody() const { return &Engine::bodies[bodyID]; }\<close> and
  its like.\<close>

definition Bond_getBody :: "layout \<Rightarrow> Bond \<Rightarrow> uintptr option" where
  "Bond_getBody L this = Some (slot_ptr (Engine_bodies L) (scast (Bond_bodyID this)))"

definition Bond_getOtherBody :: "layout \<Rightarrow> Bond \<Rightarrow> uintptr option" where
  "Bond_getOtherBody L this = Some (slot_ptr (Engine_bodies L) (scast (Bond_otherBodyID this)))"

definition Street_getIntersectionA :: "layout \<Rightarrow> Street \<Rightarrow> uintptr option" where
  "Street_getIntersectionA L this =
     Some (slot_ptr (Engine_streetIntersections L) (scast (Street_intersectionA this)))"

definition Street_getIntersectionB :: "layout \<Rightarrow> Street \<Rightarrow> uintptr option" where
  "Street_getIntersectionB L this =
     Some (slot_ptr (Engine_streetIntersections L) (scast (Street_intersectionB this)))"

definition StreetIntersection_getStreetEast :: "layout \<Rightarrow> StreetIntersection \<Rightarrow> uintptr option" where
  "StreetIntersection_getStreetEast L this =
     (if streetEast this = - 1 then None
      else Some (slot_ptr (Engine_streets L) (scast (streetEast this))))"

definition StreetIntersection_getStreetSouth :: "layout \<Rightarrow> StreetIntersection \<Rightarrow> uintptr option" where
  "StreetIntersection_getStreetSouth L this =
     (if streetSouth this = - 1 then None
      else Some (slot_ptr (Engine_streets L) (scast (streetSouth this))))"

definition StreetIntersection_getStreetWest :: "layout \<Rightarrow> StreetIntersection \<Rightarrow> uintptr option" where
  "StreetIntersection_getStreetWest L this =
     (if streetWest this = - 1 then None
      else Some (slot_ptr (Engine_streets L) (scast (streetWest this))))"

definition StreetIntersection_getStreetNorth :: "layout \<Rightarrow> StreetIntersection \<Rightarrow> uintptr option" where
  "StreetIntersection_getStreetNorth L this =
     (if streetNorth this = - 1 then None
      else Some (slot_ptr (Engine_streets L) (scast (streetNorth this))))"

section \<open>Scanning the accounts\<close>

text \<open>
  \<open>accounts::getCount\<close>, \<open>getAll\<close> and \<open>getByPhone\<close> read \<open>Engine::accounts[i]\<close> for
  \<open>i = 0, 1, ...\<close> with no comparison against \<open>maxNumberOfAccounts\<close>.  The array is
  the list of its elements; a read at an index that is not below its length is a read
  outside the array, undefined behaviour in C++, and ends the scan with a fault that
  names the index.
\<close>

datatype fault = OutOfBounds nat

function accounts_getCount_loop :: "Account list \<Rightarrow> nat \<Rightarrow> fault + nat" where
  "accounts_getCount_loop accs count =
     (if length accs \<le> count then Inl (OutOfBounds count)
      else if Account_subRosaID (accs ! count) = 0 then Inr count
      else accounts_getCount_loop accs (count + 1))"
  by pat_completeness auto
termination
  by (relation "measure (\<lambda>(accs, count). length accs - count)") auto

definition accounts_getCount :: "engine \<Rightarrow> fault + cint" where
  "accounts_getCount e =
     (case accounts_getCount_loop (accounts e) 0 of
        Inl f \<Rightarrow> Inl f
      | Inr count \<Rightarrow> Inr (of_nat count))"

function accounts_getAll_loop ::
  "layout \<Rightarrow> Account list \<Rightarrow> nat \<Rightarrow> uintptr list \<Rightarrow> fault + uintptr list" where
  "accounts_getAll_loop L accs i arr =
     (if length accs \<le> i then Inl (OutOfBounds i)
      else if Account_subRosaID (accs ! i) = 0 then Inr arr
      else accounts_getAll_loop L accs (i + 1) (arr @ [slot_ptr (Engine_accounts L) (of_nat i)]))"
  by pat_completeness auto
termination
  by (relation "measure (\<lambda>(L, accs, i, arr). length accs - i)") auto

definition accounts_getAll :: "layout \<Rightarrow> engine \<Rightarrow> fault + uintptr list" where
  "accounts_getAll L e = accounts_getAll_loop L (accounts e) 0 []"

function accounts_getByPhone_loop ::
  "layout \<Rightarrow> Account list \<Rightarrow> cint \<Rightarrow> nat \<Rightarrow> fault + uintptr option" where
  "accounts_getByPhone_loop L accs phone i =
     (if length accs \<le> i then Inl (OutOfBounds i)
      else if Account_subRosaID (accs ! i) = 0 then Inr None
      else if Account_phoneNumber (accs ! i) = phone
           then Inr (Some (slot_ptr (Engine_accounts L) (of_nat i)))
      else accounts_getByPhone_loop L accs phone (i + 1))"
  by pat_completeness auto
termination
  by (relation "measure (\<lambda>(L, accs, phone, i). length accs - i)") auto

definition accounts_getByPhone :: "layout \<Rightarrow> engine \<Rightarrow> cint \<Rightarrow> fault + uintptr option" where
  "accounts_getByPhone L e phone = accounts_getByPhone_loop L (accounts e) phone 0"

section \<open>Outbound requests\<close>

text \<open>
  \<open>httplib::Result\<close> converts to true when the exchange completed and a response is
  there, whatever its status, and to false when the request failed: an \<open>option\<close>.
  The network is a parameter, a function from the request made to its result.
\<close>

text \<open>
  \<open>httplib::Headers\<close> is a \<open>std::multimap\<close> of names and values ordered by the
  name, compared byte by byte after \<open>tolower\<close>; it is the list of its entries in the
  order an iteration visits them.  \<open>emplace\<close> puts the new entry behind every entry
  whose name is not greater, so entries of one name stay in the order they came.
\<close>

type_synonym Headers = "(string \<times> string) list"

definition tolower :: "char \<Rightarrow> nat" where
  "tolower c = (let n = (of_char c :: nat) in if 65 \<le> n \<and> n \<le> 90 then n + 32 else n)"

fun ci_less :: "string \<Rightarrow> string \<Rightarrow> bool" where
  "ci_less [] [] = False"
| "ci_less [] (y # ys) = True"
| "ci_less (x # xs) [] = False"
| "ci_less (x # xs) (y # ys) =
     (if tolower x < tolower y then True
      else if tolower y < tolower x then False
      else ci_less xs ys)"

fun Headers_emplace :: "string \<times> string \<Rightarrow> Headers \<Rightarrow> Headers" where
  "Headers_emplace kv [] = [kv]"
| "Headers_emplace kv (h # hs) =
     (if ci_less (fst kv) (fst h) then kv # h # hs else h # Headers_emplace kv hs)"

text \<open>\<open>for (const auto& pair : headers) httpHeaders.emplace(pair.first, pair.second);\<close>
  The Lua table of headers is the list of its pairs in the order the loop meets them.\<close>

definition headers_of_table :: "(string \<times> string) list \<Rightarrow> Headers" where
  "headers_of_table pairs = foldl (\<lambda>hs kv. Headers_emplace kv hs) [] pairs"

record Response =
  Response_status :: cint
  Response_body :: string
  Response_headers :: Headers

type_synonym Result = "Response option"

datatype http_call =
  HttpGet string string Headers
  | HttpPost string string Headers string string

type_synonym network = "http_call \<Rightarrow> Result"

text \<open>\<open>table[k] = v\<close> on a Lua table is \<open>AList.update\<close>; the headers are copied key
  by key in the order of the multimap, so of two headers with one name, spelled the
  same, the later one stays.\<close>

definition handleSyncHTTPResponse :: "Result \<Rightarrow> luaval" where
  "handleSyncHTTPResponse res =
     (case res of
        Some r \<Rightarrow>
          (let table = AList.update ''status'' (LNumber (sint (Response_status r))) [];
               table = AList.update ''body'' (LString (Response_body r)) table;
               headers = foldl (\<lambda>t (k, v). AList.update k (LString v) t) [] (Response_headers r);
               table = AList.update ''headers'' (LTable headers) table
           in LTable table)
      | None \<Rightarrow> LNil)"

definition http_getSync :: "network \<Rightarrow> string \<Rightarrow> string \<Rightarrow> (string \<times> string) list \<Rightarrow> luaval" where
  "http_getSync net scheme path headers =
     (let httpHeaders = headers_of_table headers;
          httpHeaders = Headers_emplace (''Connection'', ''close'') httpHeaders;
          res = net (HttpGet scheme path httpHeaders)
      in handleSyncHTTPResponse res)"

definition http_postSync ::
  "network \<Rightarrow> string \<Rightarrow> string \<Rightarrow> (string \<times> string) list \<Rightarrow> string \<Rightarrow> string \<Rightarrow> luaval" where
  "http_postSync net scheme path headers body contentType =
     (let httpHeaders = headers_of_table headers;
          httpHeaders = Headers_emplace (''Connection'', ''close'') httpHeaders;
          res = net (HttpPost scheme path httpHeaders body contentType)
      in handleSyncHTTPResponse res)"

text \<open>
  The queued form, of the first revision.  A callback is the handle of a Lua function.
  \<open>LuaHTTPResponse response{req.callback, false}\<close> initialises the remaining members
  to zero, the empty string and no headers.
\<close>

datatype LuaRequestType = LuaRequestType_get | LuaRequestType_post

record LuaHTTPRequest =
  req_type :: LuaRequestType
  req_scheme :: string
  req_path :: string
  req_callback :: nat
  req_contentType :: string
  req_body :: string
  req_headers :: Headers

record LuaHTTPResponse =
  resp_callback :: nat
  resp_responded :: bool
  resp_status :: cint
  resp_body :: string
  resp_headers :: Headers

record queues =
  requestQueue :: "LuaHTTPRequest list"
  responseQueue :: "LuaHTTPResponse list"

definition l_http_get ::
  "string \<Rightarrow> string \<Rightarrow> (string \<times> string) list \<Rightarrow> nat \<Rightarrow> queues \<Rightarrow> queues" where
  "l_http_get scheme path headers callback q =
     q\<lparr>requestQueue := requestQueue q @
          [\<lparr>req_type = LuaRequestType_get, req_scheme = scheme, req_path = path,
            req_callback = callback, req_contentType = [], req_body = [],
            req_headers = headers_of_table headers\<rparr>]\<rparr>"

definition l_http_post ::
  "string \<Rightarrow> string \<Rightarrow> (string \<times> string) list \<Rightarrow> string \<Rightarrow> string \<Rightarrow> nat \<Rightarrow> queues \<Rightarrow> queues" where
  "l_http_post scheme path headers body contentType callback q =
     q\<lparr>requestQueue := requestQueue q @
          [\<lparr>req_type = LuaRequestType_post, req_scheme = scheme, req_path = path,
            req_callback = callback, req_contentType = contentType, req_body = body,
            req_headers = headers_of_table headers\<rparr>]\<rparr>"

definition handleHTTPResponse :: "LuaHTTPRequest \<Rightarrow> Result \<Rightarrow> queues \<Rightarrow> queues" where
  "handleHTTPResponse req res q =
     (case res of
        Some r \<Rightarrow>
          q\<lparr>responseQueue := responseQueue q @
               [\<lparr>resp_callback = req_callback req, resp_responded = True,
                 resp_status = Response_status r, resp_body = Response_body r,
                 resp_headers = Response_headers r\<rparr>]\<rparr>
      | None \<Rightarrow>
          q\<lparr>responseQueue := responseQueue q @
               [\<lparr>resp_callback = req_callback req, resp_responded = False,
                 resp_status = 0, resp_body = [], resp_headers = []\<rparr>]\<rparr>)"

text \<open>One round of the worker's inner loop: \<open>None\<close> is the \<open>break\<close> on an empty
  request queue.\<close>

definition HTTPThread_step :: "network \<Rightarrow> queues \<Rightarrow> queues option" where
  "HTTPThread_step net q =
     (case requestQueue q of
        [] \<Rightarrow> None
      | r # rest \<Rightarrow>
          (let q1 = q\<lparr>requestQueue := rest\<rparr>;
               req = r\<lparr>req_headers := Headers_emplace (''Connection'', ''close'') (req_headers r)\<rparr>
           in (case req_type req of
                 LuaRequestType_get \<Rightarrow>
                   Some (handleHTTPResponse req
                     (net (HttpGet (req_scheme req) (req_path req) (req_headers req))) q1)
               | LuaRequestType_post \<Rightarrow>
                   Some (handleHTTPResponse req
                     (net (HttpPost (req_scheme req) (req_path req) (req_headers req)
                            (req_body req) (req_contentType req))) q1))))"

section \<open>Observations and a small concrete host\<close>

text \<open>The actions an invocation added, and the actions of a scope around \<open>as\<close>: the
  removal and the reinstatement enclose them when the redirect was installed.\<close>

definition new_actions :: "world \<Rightarrow> world \<Rightarrow> action list" where
  "new_actions w w' = drop (length (trace w)) (trace w')"

definition scoped_actions :: "world \<Rightarrow> hook \<Rightarrow> action list \<Rightarrow> action list" where
  "scoped_actions w h as =
     (if hookInstalled w h then [HookRemove h] @ as @ [HookInstall h] else as)"

text \<open>The calls into the host among some actions, in order.\<close>

fun engine_calls :: "action list \<Rightarrow> engine_call list" where
  "engine_calls [] = []"
| "engine_calls (EngineCall c # as) = c # engine_calls as"
| "engine_calls (a # as) = engine_calls as"

text \<open>The state in which the body of a scope starts: the redirect removed, if there
  was one.\<close>

definition without_redirect :: "hook \<Rightarrow> world \<Rightarrow> world" where
  "without_redirect h w =
     (if hookInstalled w h
      then w\<lparr>hookInstalled := (hookInstalled w)(h := False), trace := trace w @ [HookRemove h]\<rparr>
      else w)"

text \<open>The lines on the console after a call of the script: the error of a call that
  failed, nothing otherwise.\<close>

definition error_lines :: "protected_function_result \<Rightarrow> action list" where
  "error_lines res =
     (case res of Valid vs \<Rightarrow> [] | Invalid what \<Rightarrow> [ConsoleLog (luaErrorText what)])"

text \<open>A layout, a memory and a state to evaluate the definitions on: ten small arrays
  one after the other, every redirect installed, the reset event enabled.\<close>

definition example_layout :: layout where
  "example_layout =
     \<lparr>Engine_itemTypes = \<lparr>base = 0x1000, elemSize = 0x10\<rparr>,
      Engine_items = \<lparr>base = 0x2000, elemSize = 0x20\<rparr>,
      Engine_vehicles = \<lparr>base = 0x3000, elemSize = 0x40\<rparr>,
      Engine_accounts = \<lparr>base = 0x4000, elemSize = 0x10\<rparr>,
      Engine_players = \<lparr>base = 0x5000, elemSize = 0x80\<rparr>,
      Engine_humans = \<lparr>base = 0x6000, elemSize = 0x100\<rparr>,
      Engine_bodies = \<lparr>base = 0x7000, elemSize = 0x20\<rparr>,
      Engine_bonds = \<lparr>base = 0x8000, elemSize = 0x10\<rparr>,
      Engine_streets = \<lparr>base = 0x9000, elemSize = 0x40\<rparr>,
      Engine_streetIntersections = \<lparr>base = 0xA000, elemSize = 0x20\<rparr>,
      maxNumberOfItemTypes = 4, maxNumberOfItems = 8, maxNumberOfVehicles = 4,
      maxNumberOfAccounts = 4, maxNumberOfPlayers = 4, maxNumberOfHumans = 4,
      maxNumberOfRigidBodies = 8, maxNumberOfBonds = 4\<rparr>"

definition example_player :: Player where
  "example_player =
     \<lparr>Player_active = 0, Player_subRosaID = 0, Player_isBot = 0, Player_team = 0,
      Player_name = [], Player_humanID = - 1, Player_accountID = - 1\<rparr>"

definition example_human :: Human where
  "example_human =
     \<lparr>Human_active = 0, Human_playerID = - 1, Human_vehicleID = - 1,
      Human_bones = (\<lambda>i. \<lparr>Bone_bodyID = of_nat i\<rparr>),
      Human_rightHandOccupied = 0, Human_rightHandItemID = 0,
      Human_leftHandOccupied = 0, Human_leftHandItemID = 0,
      Human_isGrabbingRight = 0, Human_grabbingRightHumanID = 0,
      Human_isGrabbingLeft = 0, Human_grabbingLeftHumanID = 0\<rparr>"

definition example_item :: Item where
  "example_item =
     \<lparr>Item_active = 0, Item_grenadePrimerID = - 1, Item_parentHumanID = - 1,
      Item_parentItemID = - 1, Item_bodyID = 0\<rparr>"

definition example_engine :: engine where
  "example_engine =
     \<lparr>players = (\<lambda>p. example_player), humans = (\<lambda>p. example_human),
      items = (\<lambda>p. example_item),
      accounts = [\<lparr>Account_subRosaID = 7, Account_phoneNumber = 2560001\<rparr>,
                  \<lparr>Account_subRosaID = 9, Account_phoneNumber = 2560002\<rparr>,
                  \<lparr>Account_subRosaID = 0, Account_phoneNumber = 0\<rparr>,
                  \<lparr>Account_subRosaID = 0, Account_phoneNumber = 0\<rparr>],
      numStreets = 2, numStreetIntersections = 1\<rparr>"

definition example_world :: world where
  "example_world =
     \<lparr>eng = example_engine,
      playerDataTables = (\<lambda>i. None), humanDataTables = (\<lambda>i. None),
      itemDataTables = (\<lambda>i. None), vehicleDataTables = (\<lambda>i. None),
      bodyDataTables = (\<lambda>i. None),
      enabledKeys = (\<lambda>k. True), hookInstalled = (\<lambda>h. True), trace = []\<rparr>"

text \<open>A host that changes nothing and hands out slot 3 (no slot for a player asked
  for as a human's owner is needed: every creation gets 3).\<close>

definition example_host :: host where
  "example_host =
     \<lparr>resetGame = (\<lambda>w. w),
      createItem = (\<lambda>t pos vel rot w. (3, w)),
      createRope = (\<lambda>pos rot w. (3, w)),
      createVehicle = (\<lambda>t pos vel rot color w. (3, w)),
      createPlayer = (\<lambda>w. (3, w)),
      createHuman = (\<lambda>pos rot playerID w. (3, w)),
      deletePlayer = (\<lambda>i w. w), deleteHuman = (\<lambda>i w. w),
      deleteItem = (\<lambda>i w. w), deleteVehicle = (\<lambda>i w. w)\<rparr>"

text \<open>Three scripts for \<open>hook.run\<close>: one that vetoes, one that returns nothing,
  one whose call fails.  None changes the state.\<close>

definition example_veto :: lua_function where
  "example_veto name reason w = (Valid [LBool True], w)"

definition example_pass :: lua_function where
  "example_pass name reason w = (Valid [], w)"

definition example_broken :: lua_function where
  "example_broken name reason w = (Invalid ''attempt to call a nil value'', w)"

text \<open>A state in which the player of slot 1 has the human of slot 2, which is
  active, and one in which slot 3 of the items has a table in its side storage.\<close>

definition example_owner_world :: world where
  "example_owner_world =
     example_world\<lparr>eng := example_engine\<lparr>
       players := (\<lambda>p. example_player)(0x5080 := example_player\<lparr>Player_humanID := 2\<rparr>),
       humans := (\<lambda>p. example_human)
                   (0x6200 := example_human\<lparr>Human_active := 1, Human_playerID := 1\<rparr>)\<rparr>\<rparr>"

text \<open>A host whose reset leaves no streets, or 77 of them should it ever run while its
  redirect is installed; and a host that marks a deleted human inactive and creates a
  human in slot 2 when that slot is free, in slot 3 otherwise.\<close>

definition example_reset_host :: host where
  "example_reset_host =
     example_host\<lparr>resetGame := (\<lambda>w. w\<lparr>eng := (eng w)\<lparr>numStreets :=
       (if hookInstalled w ResetGameHook then 77 else 0)\<rparr>\<rparr>)\<rparr>"

definition example_slot_host :: host where
  "example_slot_host =
     example_host\<lparr>
       deleteHuman := (\<lambda>i w. update_human (slot_ptr (Engine_humans example_layout) (scast i))
                               (\<lambda>r. r\<lparr>Human_active := 0\<rparr>) w),
       createHuman := (\<lambda>pos rot playerID w.
          if Human_active (humans (eng w) 0x6200) = 0
          then (2, update_human 0x6200 (\<lambda>r. r\<lparr>Human_active := 1\<rparr>) w)
          else (3, update_human 0x6300 (\<lambda>r. r\<lparr>Human_active := 1\<rparr>) w))\<rparr>"

definition example_stale_world :: world where
  "example_stale_world =
     example_world\<lparr>itemDataTables := (\<lambda>i. None)(3 := Some [(''owner'', LString ''alice'')])\<rparr>"

text \<open>An array of accounts that is full: no slot has \<open>subRosaID\<close> zero.\<close>

definition example_full_accounts :: "Account list" where
  "example_full_accounts =
     [\<lparr>Account_subRosaID = 7, Account_phoneNumber = 2560001\<rparr>,
      \<lparr>Account_subRosaID = 9, Account_phoneNumber = 2560002\<rparr>,
      \<lparr>Account_subRosaID = 5, Account_phoneNumber = 2560003\<rparr>,
      \<lparr>Account_subRosaID = 3, Account_phoneNumber = 2560004\<rparr>]"

section \<open>Facts about addresses\<close>

lemma unat_ucast_32_64: "unat (ucast (idx :: 32 word) :: 64 word) = unat idx"
proof -
  have "unat idx < 2 ^ 32"
    using unsigned_less [of idx, where 'a = nat] by simp
  hence "unat idx < 2 ^ 64"
    by (rule less_trans) simp
  thus ?thesis
    by (simp add: unsigned_ucast_eq take_bit_nat_eq_self)
qed

lemma index_of_slot:
  fixes idx :: "32 word" and sz b :: "64 word"
  assumes "0 < sz" and "unat idx * unat sz < 2 ^ 64"
  shows "(ucast (((b + ucast idx * sz) - b) div sz) :: 32 word) = idx"
proof -
  let ?i = "ucast idx :: 64 word"
  have m: "unat (?i * sz) = unat idx * unat sz"
    using assms(2) unat_ucast_32_64 [of idx] unat_mult_lem [of ?i sz] by simp
  have sz0: "0 < unat sz"
    using assms(1) by (simp add: unat_gt_0 word_neq_0_conv)
  have "unat ((?i * sz) div sz) = unat idx"
    using m sz0 by (simp add: unat_div)
  hence "(?i * sz) div sz = ?i"
    using unat_ucast_32_64 [of idx] by (simp add: word_unat_eq_iff)
  moreover have "(b + ?i * sz) - b = ?i * sz"
    by simp
  ultimately show ?thesis
    by (simp add: ucast_up_ucast_id is_up)
qed

lemma index_of_slot_ptr:
  assumes "array_fits A n" and "idx < n"
  shows "(ucast ((slot_ptr A (ucast idx) - base A) div elemSize A) :: 32 word) = idx"
proof -
  have sz: "0 < elemSize A" and le: "unat n * unat (elemSize A) \<le> 2 ^ 64"
    using assms(1) by (simp_all add: array_fits_def)
  have lt: "unat idx < unat n"
    using assms(2) by (simp add: word_less_nat_alt)
  have pos: "0 < unat (elemSize A)"
    using sz by (simp add: unat_gt_0 word_neq_0_conv)
  have "unat idx * unat (elemSize A) < unat n * unat (elemSize A)"
    using lt pos by simp
  hence "unat idx * unat (elemSize A) < 2 ^ 64"
    using le by (rule less_le_trans)
  thus ?thesis
    using sz index_of_slot [of "elemSize A" idx "base A"]
    by (simp add: slot_ptr_def)
qed

lemma sint_eq_uint_small:
  fixes idx :: "32 word"
  assumes "unat idx < 2 ^ 31"
  shows "sint idx = uint idx"
proof -
  have "int (unat idx) < 2 ^ 31"
    using assms by (metis of_nat_less_iff of_nat_numeral of_nat_power)
  hence "uint idx < 2 ^ 31"
    by simp
  moreover have "- (2 ^ 31) \<le> uint idx"
    by (rule order_trans [of _ 0]) simp_all
  ultimately show ?thesis
    by (simp add: sint_uint signed_take_bit_int_eq_self)
qed

lemma getByIndex_eq:
  "getByIndex L e c idx =
     (if limit L e c \<le> idx then Inl (invalid_argument errorOutOfRange)
      else Inr (slot_ptr (array_of L c) (ucast idx)))"
  by (cases c)
     (simp_all add: limit_def itemTypes_getByIndex_def items_getByIndex_def
        vehicles_getByIndex_def accounts_getByIndex_def players_getByIndex_def
        humans_getByIndex_def rigidBodies_getByIndex_def bonds_getByIndex_def
        streets_getByIndex_def intersections_getByIndex_def)


lemma scast_eq_ucast_small:
  fixes r :: "32 word"
  assumes "unat r < 2 ^ 31"
  shows "(scast r :: 64 word) = ucast r"
proof -
  have "sint r = uint r"
    using assms by (rule sint_eq_uint_small)
  thus ?thesis
    by (metis of_int_sint of_int_uint)
qed

lemma index_of_signed_slot:
  assumes "array_fits A n" and "r < n" and "unat n \<le> 2 ^ 31"
  shows "(ucast ((slot_ptr A (scast r) - base A) div elemSize A) :: 32 word) = r"
proof -
  have "unat r < unat n"
    using assms(2) by (simp add: word_less_nat_alt)
  hence "unat r < 2 ^ 31"
    using assms(3) by (rule less_le_trans)
  hence "(scast r :: 64 word) = ucast r"
    by (rule scast_eq_ucast_small)
  thus ?thesis
    using index_of_slot_ptr [OF assms(1,2)] by simp
qed

section \<open>Identity of a proxy\<close>



section \<open>The out-of-range contract\<close>

text \<open>
  C4, as the code has it.  \<open>getByIndex\<close> of every category raises
  \<open>std::invalid_argument("Index out of range")\<close> exactly when the index is at or above
  the bound it compares with, and below that bound it returns the address of the slot.
  For the item types, items, vehicles, accounts, players, humans, rigid bodies and
  bonds the bound is the capacity constant, so the answer does not depend on the
  host's memory, in particular not on whether the slot is active.  For the streets and
  the street intersections the bound is the live count the host keeps.
\<close>

theorem getByIndex_out_of_range:
  "(getByIndex L e c idx = Inl (invalid_argument ''Index out of range'')) = (limit L e c \<le> idx)
   \<and> (idx < limit L e c \<longrightarrow> getByIndex L e c idx = Inr (slot_ptr (array_of L c) (ucast idx)))
   \<and> (capacity L c = Some n \<longrightarrow> limit L e c = n \<and> getByIndex L e c idx = getByIndex L e' c idx)
   \<and> limit L e Streets = numStreets e
   \<and> limit L e StreetIntersections = numStreetIntersections e"
  by (cases c) (auto simp add: getByIndex_eq limit_def errorOutOfRange_def)

theorem getByIndex_out_of_range_witness:
  "(2 :: cuint) < limit example_layout example_engine Items
   \<and> capacity example_layout Items = Some 8
   \<and> Item_active (items example_engine 0x2040) = 0
   \<and> getByIndex example_layout example_engine Items 2 = Inr 0x2040
   \<and> getByIndex example_layout example_engine Items 8 = Inl (invalid_argument ''Index out of range'')"
  using getByIndex_out_of_range [of example_layout example_engine Items 2 8 example_engine]
    getByIndex_out_of_range [of example_layout example_engine Items 8 8 example_engine]
  by (simp add: limit_def example_layout_def example_engine_def example_item_def slot_ptr_def)

text \<open>With two streets index 5 is out of range, with eight it is slot 5: no fixed
  capacity decides \<open>streets.getByIndex\<close>.\<close>

theorem streets_getByIndex_live_count_counterexample:
  "getByIndex example_layout (example_engine\<lparr>numStreets := 2\<rparr>) Streets 5
     = Inl (invalid_argument ''Index out of range'')
   \<and> getByIndex example_layout (example_engine\<lparr>numStreets := 8\<rparr>) Streets 5 = Inr 0x9140"
  by (simp add: streets_getByIndex_def example_layout_def errorOutOfRange_def slot_ptr_def)

section \<open>Relationship accessors and the sentinel\<close>

lemma slot_or_null_None: "(slot_or_null A r = None) = (r = - 1)"
  by (simp add: slot_or_null_def)

text \<open>
  C5, as the code has it.  The accessors that turn a stored index into a proxy fall
  into three groups.  Twelve compare with the sentinel (the player and the vehicle of
  a human, the human of a player, the grenade primer, parent human and parent item of
  an item, the last driver of a vehicle, the player of a bullet, the four streets of
  an intersection): they yield no value exactly when the stored reference is \<open>-1\<close>,
  and otherwise the address of the referenced category's slot at the stored index;
  for a reference below the capacity that proxy's index is the reference.  Four
  compare a flag instead (the item in the right and in the left hand of a human, the
  human grabbed by the right and by the left hand): no value exactly when the flag is
  zero, otherwise the slot at the stored index, whatever the index is.  The rest
  compare nothing (the account of a player, the rigid body of an item, of a vehicle
  and of a human's bone, the two bodies of a bond, the two intersections of a street):
  they return the slot at the stored index whatever it is, and \<open>Player.setAccount\<close>
  refuses nil.
\<close>

theorem relationship_accessors:
  "(Human_getPlayer L h = None) = (Human_playerID h = - 1)
   \<and> (Human_getVehicle L h = None) = (Human_vehicleID h = - 1)
   \<and> (Player_getHuman L p = None) = (Player_humanID p = - 1)
   \<and> (Item_getGrenadePrimer L i = None) = (Item_grenadePrimerID i = - 1)
   \<and> (Item_getParentHuman L i = None) = (Item_parentHumanID i = - 1)
   \<and> (Item_getParentItem L i = None) = (Item_parentItemID i = - 1)
   \<and> (Vehicle_getLastDriver L v = None) = (Vehicle_lastDriverPlayerID v = - 1)
   \<and> (Bullet_getPlayer L b = None) = (Bullet_playerID b = - 1)
   \<and> (StreetIntersection_getStreetEast L x = None) = (streetEast x = - 1)
   \<and> (StreetIntersection_getStreetSouth L x = None) = (streetSouth x = - 1)
   \<and> (StreetIntersection_getStreetWest L x = None) = (streetWest x = - 1)
   \<and> (StreetIntersection_getStreetNorth L x = None) = (streetNorth x = - 1)
   \<and> (Human_playerID h \<noteq> - 1 \<longrightarrow>
        Human_getPlayer L h = Some (slot_ptr (Engine_players L) (scast (Human_playerID h))))
   \<and> (Human_vehicleID h \<noteq> - 1 \<longrightarrow>
        Human_getVehicle L h = Some (slot_ptr (Engine_vehicles L) (scast (Human_vehicleID h))))
   \<and> (Player_humanID p \<noteq> - 1 \<longrightarrow>
        Player_getHuman L p = Some (slot_ptr (Engine_humans L) (scast (Player_humanID p))))
   \<and> (Item_grenadePrimerID i \<noteq> - 1 \<longrightarrow>
        Item_getGrenadePrimer L i = Some (slot_ptr (Engine_players L) (scast (Item_grenadePrimerID i))))
   \<and> (Item_parentHumanID i \<noteq> - 1 \<longrightarrow>
        Item_getParentHuman L i = Some (slot_ptr (Engine_humans L) (scast (Item_parentHumanID i))))
   \<and> (Item_parentItemID i \<noteq> - 1 \<longrightarrow>
        Item_getParentItem L i = Some (slot_ptr (Engine_items L) (scast (Item_parentItemID i))))
   \<and> (Vehicle_lastDriverPlayerID v \<noteq> - 1 \<longrightarrow>
        Vehicle_getLastDriver L v
          = Some (slot_ptr (Engine_players L) (scast (Vehicle_lastDriverPlayerID v))))
   \<and> (Bullet_playerID b \<noteq> - 1 \<longrightarrow>
        Bullet_getPlayer L b = Some (slot_ptr (Engine_players L) (scast (Bullet_playerID b))))
   \<and> (streetEast x \<noteq> - 1 \<longrightarrow>
        StreetIntersection_getStreetEast L x = Some (slot_ptr (Engine_streets L) (scast (streetEast x))))
   \<and> (streetSouth x \<noteq> - 1 \<longrightarrow>
        StreetIntersection_getStreetSouth L x = Some (slot_ptr (Engine_streets L) (scast (streetSouth x))))
   \<and> (streetWest x \<noteq> - 1 \<longrightarrow>
        StreetIntersection_getStreetWest L x = Some (slot_ptr (Engine_streets L) (scast (streetWest x))))
   \<and> (streetNorth x \<noteq> - 1 \<longrightarrow>
        StreetIntersection_getStreetNorth L x = Some (slot_ptr (Engine_streets L) (scast (streetNorth x))))
   \<and> Player_getAccount L p = Some (slot_ptr (Engine_accounts L) (scast (Player_accountID p)))
   \<and> Item_getRigidBody L i = Some (slot_ptr (Engine_bodies L) (scast (Item_bodyID i)))
   \<and> Vehicle_getRigidBody L v = Some (slot_ptr (Engine_bodies L) (scast (Vehicle_bodyID v)))
   \<and> (Human_getRightHandItem L h = None) = (Human_rightHandOccupied h = 0)
   \<and> (Human_getLeftHandItem L h = None) = (Human_leftHandOccupied h = 0)
   \<and> (Human_getRightHandGrab L h = None) = (Human_isGrabbingRight h = 0)
   \<and> (Human_getLeftHandGrab L h = None) = (Human_isGrabbingLeft h = 0)
   \<and> (Human_rightHandOccupied h \<noteq> 0 \<longrightarrow>
        Human_getRightHandItem L h
          = Some (slot_ptr (Engine_items L) (scast (Human_rightHandItemID h))))
   \<and> (Human_leftHandOccupied h \<noteq> 0 \<longrightarrow>
        Human_getLeftHandItem L h
          = Some (slot_ptr (Engine_items L) (scast (Human_leftHandItemID h))))
   \<and> (Human_isGrabbingRight h \<noteq> 0 \<longrightarrow>
        Human_getRightHandGrab L h
          = Some (slot_ptr (Engine_humans L) (scast (Human_grabbingRightHumanID h))))
   \<and> (Human_isGrabbingLeft h \<noteq> 0 \<longrightarrow>
        Human_getLeftHandGrab L h
          = Some (slot_ptr (Engine_humans L) (scast (Human_grabbingLeftHumanID h))))
   \<and> Human_getRigidBody L h idx
        = (if 15 < idx then Inl (invalid_argument ''Index out of range'')
           else Inr (slot_ptr (Engine_bodies L) (scast (Bone_bodyID (Human_bones h (unat idx))))))
   \<and> Bond_getBody L bd = Some (slot_ptr (Engine_bodies L) (scast (Bond_bodyID bd)))
   \<and> Bond_getOtherBody L bd = Some (slot_ptr (Engine_bodies L) (scast (Bond_otherBodyID bd)))
   \<and> Street_getIntersectionA L st
        = Some (slot_ptr (Engine_streetIntersections L) (scast (Street_intersectionA st)))
   \<and> Street_getIntersectionB L st
        = Some (slot_ptr (Engine_streetIntersections L) (scast (Street_intersectionB st)))
   \<and> Player_setAccount L None p = Inl (invalid_argument ''Cannot set account to nil value'')
   \<and> (array_fits (Engine_players L) (maxNumberOfPlayers L)
        \<and> unat (maxNumberOfPlayers L) \<le> 2 ^ 31 \<and> Human_playerID h < maxNumberOfPlayers L \<longrightarrow>
        (\<exists>q. Human_getPlayer L h = Some q \<and> Player_getIndex L q = Human_playerID h))"
proof -
  have idx: "array_fits (Engine_players L) (maxNumberOfPlayers L)
        \<and> unat (maxNumberOfPlayers L) \<le> 2 ^ 31 \<and> Human_playerID h < maxNumberOfPlayers L \<longrightarrow>
        (\<exists>q. Human_getPlayer L h = Some q \<and> Player_getIndex L q = Human_playerID h)"
  proof
    assume a: "array_fits (Engine_players L) (maxNumberOfPlayers L)
        \<and> unat (maxNumberOfPlayers L) \<le> 2 ^ 31 \<and> Human_playerID h < maxNumberOfPlayers L"
    have "unat (Human_playerID h) < unat (maxNumberOfPlayers L)"
      using a by (simp add: word_less_nat_alt)
    hence "unat (Human_playerID h) < 2 ^ 31"
      using a by simp
    moreover have "unat (- 1 :: 32 word) = 4294967295"
      by (simp add: unsigned_minus_1_eq_mask mask_eq_exp_minus_1)
    ultimately have "Human_playerID h \<noteq> - 1"
      by auto
    moreover have "Player_getIndex L (slot_ptr (Engine_players L) (scast (Human_playerID h)))
                     = Human_playerID h"
      using a index_of_signed_slot [of "Engine_players L" "maxNumberOfPlayers L" "Human_playerID h"]
      by (simp add: Player_getIndex_def)
    ultimately show "\<exists>q. Human_getPlayer L h = Some q \<and> Player_getIndex L q = Human_playerID h"
      by (simp add: Human_getPlayer_def)
  qed
  show ?thesis
    using idx
    by (simp add: Human_getPlayer_def Human_getVehicle_def Player_getHuman_def
        Item_getGrenadePrimer_def Item_getParentHuman_def Item_getParentItem_def
        Vehicle_getLastDriver_def Bullet_getPlayer_def
        StreetIntersection_getStreetEast_def StreetIntersection_getStreetSouth_def
        StreetIntersection_getStreetWest_def StreetIntersection_getStreetNorth_def
        Player_getAccount_def Item_getRigidBody_def Vehicle_getRigidBody_def
        Player_setAccount_def Human_getRightHandItem_def Human_getLeftHandItem_def
        Human_getRightHandGrab_def Human_getLeftHandGrab_def Human_getRigidBody_def
        Bond_getBody_def Bond_getOtherBody_def Street_getIntersectionA_def
        Street_getIntersectionB_def errorOutOfRange_def)
qed

text \<open>A player whose stored account reference is \<open>-1\<close>: \<open>getAccount\<close> yields a
  pointer, one element before the accounts, not nil.\<close>

theorem Player_getAccount_sentinel_counterexample:
  "Player_accountID (example_player\<lparr>Player_accountID := - 1\<rparr>) = - 1
   \<and> Player_getAccount example_layout (example_player\<lparr>Player_accountID := - 1\<rparr>) = Some 0x3FF0"
  by (simp add: Player_getAccount_def example_layout_def slot_ptr_def)

text \<open>The counterexample's kind in the second group: a right hand marked occupied
  with the stored item \<open>-1\<close> yields a pointer, and a free hand with a stored item
  yields nothing.\<close>

lemma Human_getRightHandItem_flag:
  "Human_getRightHandItem example_layout
     (example_human\<lparr>Human_rightHandOccupied := 1, Human_rightHandItemID := - 1\<rparr>) = Some 0x1FE0
   \<and> Human_getRightHandItem example_layout
     (example_human\<lparr>Human_rightHandOccupied := 0, Human_rightHandItemID := 5\<rparr>) = None"
  by (simp add: Human_getRightHandItem_def example_layout_def example_human_def slot_ptr_def)

theorem relationship_accessors_witness:
  "Human_playerID (example_human\<lparr>Human_playerID := 2, Human_vehicleID := 1,
       Human_rightHandOccupied := 1, Human_rightHandItemID := 4,
       Human_leftHandOccupied := 1, Human_leftHandItemID := 6,
       Human_isGrabbingRight := 1, Human_grabbingRightHumanID := 3,
       Human_isGrabbingLeft := 1, Human_grabbingLeftHumanID := 0\<rparr>) \<noteq> - 1
   \<and> array_fits (Engine_players example_layout) (maxNumberOfPlayers example_layout)
   \<and> Human_getPlayer example_layout (example_human\<lparr>Human_playerID := 2\<rparr>) = Some 0x5100
   \<and> Player_getIndex example_layout 0x5100 = 2
   \<and> Human_getVehicle example_layout (example_human\<lparr>Human_vehicleID := 1\<rparr>) = Some 0x3040
   \<and> Player_getHuman example_layout (example_player\<lparr>Player_humanID := 3\<rparr>) = Some 0x6300
   \<and> Player_getAccount example_layout (example_player\<lparr>Player_accountID := 1\<rparr>) = Some 0x4010
   \<and> Item_getGrenadePrimer example_layout
        \<lparr>Item_active = 1, Item_grenadePrimerID = 1, Item_parentHumanID = 2,
         Item_parentItemID = 5, Item_bodyID = 4\<rparr> = Some 0x5080
   \<and> Item_getParentHuman example_layout
        \<lparr>Item_active = 1, Item_grenadePrimerID = 1, Item_parentHumanID = 2,
         Item_parentItemID = 5, Item_bodyID = 4\<rparr> = Some 0x6200
   \<and> Item_getParentItem example_layout
        \<lparr>Item_active = 1, Item_grenadePrimerID = 1, Item_parentHumanID = 2,
         Item_parentItemID = 5, Item_bodyID = 4\<rparr> = Some 0x20A0
   \<and> Vehicle_getLastDriver example_layout
        \<lparr>Vehicle_lastDriverPlayerID = 3, Vehicle_bodyID = 0\<rparr> = Some 0x5180
   \<and> Bullet_getPlayer example_layout \<lparr>Bullet_playerID = 0\<rparr> = Some 0x5000
   \<and> StreetIntersection_getStreetEast example_layout
        \<lparr>streetEast = 0, streetSouth = 1, streetWest = 2, streetNorth = 3\<rparr> = Some 0x9000
   \<and> StreetIntersection_getStreetSouth example_layout
        \<lparr>streetEast = 0, streetSouth = 1, streetWest = 2, streetNorth = 3\<rparr> = Some 0x9040
   \<and> StreetIntersection_getStreetWest example_layout
        \<lparr>streetEast = 0, streetSouth = 1, streetWest = 2, streetNorth = 3\<rparr> = Some 0x9080
   \<and> StreetIntersection_getStreetNorth example_layout
        \<lparr>streetEast = 0, streetSouth = 1, streetWest = 2, streetNorth = 3\<rparr> = Some 0x90C0
   \<and> Human_getRightHandItem example_layout
        (example_human\<lparr>Human_rightHandOccupied := 1, Human_rightHandItemID := 4\<rparr>) = Some 0x2080
   \<and> Human_getLeftHandItem example_layout
        (example_human\<lparr>Human_leftHandOccupied := 1, Human_leftHandItemID := 6\<rparr>) = Some 0x20C0
   \<and> Human_getRightHandGrab example_layout
        (example_human\<lparr>Human_isGrabbingRight := 1, Human_grabbingRightHumanID := 3\<rparr>) = Some 0x6300
   \<and> Human_getLeftHandGrab example_layout
        (example_human\<lparr>Human_isGrabbingLeft := 1, Human_grabbingLeftHumanID := 0\<rparr>) = Some 0x6000
   \<and> Human_getRigidBody example_layout example_human 5 = Inr 0x70A0
   \<and> Human_getRigidBody example_layout example_human 16
        = Inl (invalid_argument ''Index out of range'')
   \<and> Bond_getBody example_layout \<lparr>Bond_bodyID = 1, Bond_otherBodyID = 2\<rparr> = Some 0x7020
   \<and> Bond_getOtherBody example_layout \<lparr>Bond_bodyID = 1, Bond_otherBodyID = 2\<rparr> = Some 0x7040
   \<and> Street_getIntersectionA example_layout
        \<lparr>Street_intersectionA = 0, Street_intersectionB = 1\<rparr> = Some 0xA000
   \<and> Street_getIntersectionB example_layout
        \<lparr>Street_intersectionA = 0, Street_intersectionB = 1\<rparr> = Some 0xA020
   \<and> Human_getPlayer example_layout example_human = None
   \<and> Human_getRightHandItem example_layout example_human = None
   \<and> Item_getParentItem example_layout example_item = None"
proof -
  let ?h = "example_human\<lparr>Human_playerID := 2, Human_vehicleID := 1,
       Human_rightHandOccupied := 1, Human_rightHandItemID := 4,
       Human_leftHandOccupied := 1, Human_leftHandItemID := 6,
       Human_isGrabbingRight := 1, Human_grabbingRightHumanID := 3,
       Human_isGrabbingLeft := 1, Human_grabbingLeftHumanID := 0\<rparr>"
  have fits: "array_fits (Engine_players example_layout) (maxNumberOfPlayers example_layout)"
    "unat (maxNumberOfPlayers example_layout) \<le> 2 ^ 31"
    "Human_playerID ?h < maxNumberOfPlayers example_layout"
    "Human_playerID ?h \<noteq> - 1"
    by (simp_all add: array_fits_def example_layout_def)
  have "array_fits (Engine_players example_layout) (maxNumberOfPlayers example_layout)
        \<and> unat (maxNumberOfPlayers example_layout) \<le> 2 ^ 31
        \<and> Human_playerID ?h < maxNumberOfPlayers example_layout \<longrightarrow>
        (\<exists>q. Human_getPlayer example_layout ?h = Some q
           \<and> Player_getIndex example_layout q = Human_playerID ?h)"
    using relationship_accessors [of example_layout ?h example_player example_item
            "\<lparr>Vehicle_lastDriverPlayerID = 3, Vehicle_bodyID = 0\<rparr>" "\<lparr>Bullet_playerID = 0\<rparr>"
            "\<lparr>streetEast = 0, streetSouth = 1, streetWest = 2, streetNorth = 3\<rparr>" 5
            "\<lparr>Bond_bodyID = 1, Bond_otherBodyID = 2\<rparr>"
            "\<lparr>Street_intersectionA = 0, Street_intersectionB = 1\<rparr>"]
    by - (elim conjE, assumption)
  with fits obtain q where q: "Human_getPlayer example_layout ?h = Some q"
      "Player_getIndex example_layout q = Human_playerID ?h"
    by blast
  have "Human_getPlayer example_layout ?h = Some 0x5100"
    by (simp add: Human_getPlayer_def example_layout_def slot_ptr_def)
  with q have ix: "Player_getIndex example_layout 0x5100 = 2"
    by simp
  have ev: "Human_getPlayer example_layout (example_human\<lparr>Human_playerID := 2\<rparr>) = Some 0x5100"
    "Human_getVehicle example_layout (example_human\<lparr>Human_vehicleID := 1\<rparr>) = Some 0x3040"
    "Player_getHuman example_layout (example_player\<lparr>Player_humanID := 3\<rparr>) = Some 0x6300"
    "Player_getAccount example_layout (example_player\<lparr>Player_accountID := 1\<rparr>) = Some 0x4010"
    "Item_getGrenadePrimer example_layout
        \<lparr>Item_active = 1, Item_grenadePrimerID = 1, Item_parentHumanID = 2,
         Item_parentItemID = 5, Item_bodyID = 4\<rparr> = Some 0x5080"
    "Item_getParentHuman example_layout
        \<lparr>Item_active = 1, Item_grenadePrimerID = 1, Item_parentHumanID = 2,
         Item_parentItemID = 5, Item_bodyID = 4\<rparr> = Some 0x6200"
    "Item_getParentItem example_layout
        \<lparr>Item_active = 1, Item_grenadePrimerID = 1, Item_parentHumanID = 2,
         Item_parentItemID = 5, Item_bodyID = 4\<rparr> = Some 0x20A0"
    "Vehicle_getLastDriver example_layout
        \<lparr>Vehicle_lastDriverPlayerID = 3, Vehicle_bodyID = 0\<rparr> = Some 0x5180"
    "Bullet_getPlayer example_layout \<lparr>Bullet_playerID = 0\<rparr> = Some 0x5000"
    "StreetIntersection_getStreetEast example_layout
        \<lparr>streetEast = 0, streetSouth = 1, streetWest = 2, streetNorth = 3\<rparr> = Some 0x9000"
    "StreetIntersection_getStreetSouth example_layout
        \<lparr>streetEast = 0, streetSouth = 1, streetWest = 2, streetNorth = 3\<rparr> = Some 0x9040"
    "StreetIntersection_getStreetWest example_layout
        \<lparr>streetEast = 0, streetSouth = 1, streetWest = 2, streetNorth = 3\<rparr> = Some 0x9080"
    "StreetIntersection_getStreetNorth example_layout
        \<lparr>streetEast = 0, streetSouth = 1, streetWest = 2, streetNorth = 3\<rparr> = Some 0x90C0"
    "Human_getRightHandItem example_layout
        (example_human\<lparr>Human_rightHandOccupied := 1, Human_rightHandItemID := 4\<rparr>) = Some 0x2080"
    "Human_getLeftHandItem example_layout
        (example_human\<lparr>Human_leftHandOccupied := 1, Human_leftHandItemID := 6\<rparr>) = Some 0x20C0"
    "Human_getRightHandGrab example_layout
        (example_human\<lparr>Human_isGrabbingRight := 1, Human_grabbingRightHumanID := 3\<rparr>) = Some 0x6300"
    "Human_getLeftHandGrab example_layout
        (example_human\<lparr>Human_isGrabbingLeft := 1, Human_grabbingLeftHumanID := 0\<rparr>) = Some 0x6000"
    "Human_getRigidBody example_layout example_human 5 = Inr 0x70A0"
    "Human_getRigidBody example_layout example_human 16
        = Inl (invalid_argument ''Index out of range'')"
    "Bond_getBody example_layout \<lparr>Bond_bodyID = 1, Bond_otherBodyID = 2\<rparr> = Some 0x7020"
    "Bond_getOtherBody example_layout \<lparr>Bond_bodyID = 1, Bond_otherBodyID = 2\<rparr> = Some 0x7040"
    "Street_getIntersectionA example_layout
        \<lparr>Street_intersectionA = 0, Street_intersectionB = 1\<rparr> = Some 0xA000"
    "Street_getIntersectionB example_layout
        \<lparr>Street_intersectionA = 0, Street_intersectionB = 1\<rparr> = Some 0xA020"
    "Human_getPlayer example_layout example_human = None"
    "Human_getRightHandItem example_layout example_human = None"
    "Item_getParentItem example_layout example_item = None"
    by (simp_all add: Human_getPlayer_def Human_getVehicle_def Player_getHuman_def
        Item_getGrenadePrimer_def Item_getParentHuman_def Item_getParentItem_def
        Vehicle_getLastDriver_def Bullet_getPlayer_def
        StreetIntersection_getStreetEast_def StreetIntersection_getStreetSouth_def
        StreetIntersection_getStreetWest_def StreetIntersection_getStreetNorth_def
        Player_getAccount_def Human_getRightHandItem_def Human_getLeftHandItem_def
        Human_getRightHandGrab_def Human_getLeftHandGrab_def Human_getRigidBody_def
        Bond_getBody_def Bond_getOtherBody_def Street_getIntersectionA_def
        Street_getIntersectionB_def errorOutOfRange_def
        example_layout_def example_human_def example_item_def slot_ptr_def)
  from fits(4,1) ix ev show ?thesis
    by simp
qed

section \<open>The accounts are scanned without a capacity bound\<close>

declare accounts_getCount_loop.simps [simp del]
declare accounts_getAll_loop.simps [simp del]
declare accounts_getByPhone_loop.simps [simp del]

lemma getCount_loop_sound:
  "accounts_getCount_loop accs i = Inr n \<Longrightarrow>
     i \<le> n \<and> n < length accs \<and> Account_subRosaID (accs ! n) = 0
     \<and> (\<forall>j. i \<le> j \<and> j < n \<longrightarrow> Account_subRosaID (accs ! j) \<noteq> 0)"
proof (induction accs i rule: accounts_getCount_loop.induct)
  case (1 accs count)
  show ?case
  proof (cases "length accs \<le> count")
    case True
    with "1.prems" show ?thesis
      by (simp add: accounts_getCount_loop.simps [of accs count])
  next
    case False
    show ?thesis
    proof (cases "Account_subRosaID (accs ! count) = 0")
      case True
      with False "1.prems" show ?thesis
        by (auto simp add: accounts_getCount_loop.simps [of accs count])
    next
      case nz: False
      with False "1.prems" have "accounts_getCount_loop accs (count + 1) = Inr n"
        by (simp add: accounts_getCount_loop.simps [of accs count])
      from "1.IH" [OF False nz this] have
        ih: "count + 1 \<le> n" "n < length accs" "Account_subRosaID (accs ! n) = 0"
            "\<forall>j. count + 1 \<le> j \<and> j < n \<longrightarrow> Account_subRosaID (accs ! j) \<noteq> 0"
        by simp_all
      have "\<forall>j. count \<le> j \<and> j < n \<longrightarrow> Account_subRosaID (accs ! j) \<noteq> 0"
      proof (intro allI impI)
        fix j
        assume h: "count \<le> j \<and> j < n"
        show "Account_subRosaID (accs ! j) \<noteq> 0"
        proof (cases "j = count")
          case True
          thus ?thesis using nz by simp
        next
          case False
          hence "count + 1 \<le> j" using h by arith
          thus ?thesis using ih(4) h by blast
        qed
      qed
      with ih show ?thesis
        by simp
    qed
  qed
qed

lemma getCount_loop_complete:
  "i \<le> j \<Longrightarrow> j < length accs \<Longrightarrow> Account_subRosaID (accs ! j) = 0 \<Longrightarrow>
     \<exists>n. accounts_getCount_loop accs i = Inr n"
proof (induction accs i rule: accounts_getCount_loop.induct)
  case (1 accs count)
  show ?case
  proof (cases "Account_subRosaID (accs ! count) = 0")
    case True
    with "1.prems" show ?thesis
      by (simp add: accounts_getCount_loop.simps [of accs count])
  next
    case nz: False
    with "1.prems" have ne: "count \<noteq> j" by auto
    hence "count + 1 \<le> j" using "1.prems" by simp
    moreover have nl: "\<not> length accs \<le> count" using "1.prems" by simp
    ultimately have "\<exists>n. accounts_getCount_loop accs (count + 1) = Inr n"
      using "1.IH" [OF nl nz] "1.prems" by simp
    with nl nz show ?thesis
      by (simp add: accounts_getCount_loop.simps [of accs count])
  qed
qed

lemma getAll_loop_sound:
  "accounts_getAll_loop L accs i arr = Inr r \<Longrightarrow>
     \<exists>n. i \<le> n \<and> n < length accs \<and> Account_subRosaID (accs ! n) = 0
       \<and> r = arr @ map (\<lambda>k. slot_ptr (Engine_accounts L) (of_nat k)) [i..<n]"
proof (induction L accs i arr rule: accounts_getAll_loop.induct)
  case (1 L accs i arr)
  show ?case
  proof (cases "length accs \<le> i")
    case True
    with "1.prems" show ?thesis
      by (simp add: accounts_getAll_loop.simps [of L accs i arr])
  next
    case False
    show ?thesis
    proof (cases "Account_subRosaID (accs ! i) = 0")
      case True
      with False "1.prems" have "r = arr"
        by (simp add: accounts_getAll_loop.simps [of L accs i arr])
      with False True show ?thesis
        by (intro exI [of _ i]) simp
    next
      case nz: False
      with False "1.prems"
      have "accounts_getAll_loop L accs (i + 1) (arr @ [slot_ptr (Engine_accounts L) (of_nat i)]) = Inr r"
        by (simp add: accounts_getAll_loop.simps [of L accs i arr])
      from "1.IH" [OF False nz this] obtain n where
        n: "i + 1 \<le> n" "n < length accs" "Account_subRosaID (accs ! n) = 0"
           "r = (arr @ [slot_ptr (Engine_accounts L) (of_nat i)])
                  @ map (\<lambda>k. slot_ptr (Engine_accounts L) (of_nat k)) [i + 1..<n]"
        by auto
      have "[i..<n] = i # [i + 1..<n]"
        using n(1) by (simp add: upt_conv_Cons)
      with n show ?thesis
        by (intro exI [of _ n]) simp
    qed
  qed
qed

lemma getAll_loop_complete:
  "i \<le> j \<Longrightarrow> j < length accs \<Longrightarrow> Account_subRosaID (accs ! j) = 0 \<Longrightarrow>
     \<exists>r. accounts_getAll_loop L accs i arr = Inr r"
proof (induction L accs i arr rule: accounts_getAll_loop.induct)
  case (1 L accs i arr)
  show ?case
  proof (cases "Account_subRosaID (accs ! i) = 0")
    case True
    with "1.prems" show ?thesis
      by (simp add: accounts_getAll_loop.simps [of L accs i arr])
  next
    case nz: False
    with "1.prems" have ne: "i \<noteq> j" by auto
    hence "i + 1 \<le> j" using "1.prems" by simp
    moreover have nl: "\<not> length accs \<le> i" using "1.prems" by simp
    ultimately have "\<exists>r. accounts_getAll_loop L accs (i + 1)
                       (arr @ [slot_ptr (Engine_accounts L) (of_nat i)]) = Inr r"
      using "1.IH" [OF nl nz] "1.prems" by simp
    with nl nz show ?thesis
      by (simp add: accounts_getAll_loop.simps [of L accs i arr])
  qed
qed

lemma getByPhone_loop_sound:
  "accounts_getByPhone_loop L accs phone i = Inr r \<Longrightarrow>
     \<exists>n. i \<le> n \<and> n < length accs
       \<and> (\<forall>j. i \<le> j \<and> j < n \<longrightarrow>
             Account_subRosaID (accs ! j) \<noteq> 0 \<and> Account_phoneNumber (accs ! j) \<noteq> phone)
       \<and> (if Account_subRosaID (accs ! n) = 0 then r = None
           else Account_phoneNumber (accs ! n) = phone
                \<and> r = Some (slot_ptr (Engine_accounts L) (of_nat n)))"
proof (induction L accs phone i rule: accounts_getByPhone_loop.induct)
  case (1 L accs phone i)
  show ?case
  proof (cases "length accs \<le> i")
    case True
    with "1.prems" show ?thesis
      by (simp add: accounts_getByPhone_loop.simps [of L accs phone i])
  next
    case False
    show ?thesis
    proof (cases "Account_subRosaID (accs ! i) = 0 \<or> Account_phoneNumber (accs ! i) = phone")
      case True
      with False "1.prems" show ?thesis
        by (intro exI [of _ i])
           (auto simp add: accounts_getByPhone_loop.simps [of L accs phone i] split: if_splits)
    next
      case go: False
      with False "1.prems" have "accounts_getByPhone_loop L accs phone (i + 1) = Inr r"
        by (simp add: accounts_getByPhone_loop.simps [of L accs phone i])
      with "1.IH" [OF False] go obtain n where
        n: "i + 1 \<le> n" "n < length accs"
           "\<forall>j. i + 1 \<le> j \<and> j < n \<longrightarrow>
             Account_subRosaID (accs ! j) \<noteq> 0 \<and> Account_phoneNumber (accs ! j) \<noteq> phone"
           "if Account_subRosaID (accs ! n) = 0 then r = None
            else Account_phoneNumber (accs ! n) = phone
                 \<and> r = Some (slot_ptr (Engine_accounts L) (of_nat n))"
        by auto
      have "\<forall>j. i \<le> j \<and> j < n \<longrightarrow>
             Account_subRosaID (accs ! j) \<noteq> 0 \<and> Account_phoneNumber (accs ! j) \<noteq> phone"
      proof (intro allI impI)
        fix j
        assume h: "i \<le> j \<and> j < n"
        show "Account_subRosaID (accs ! j) \<noteq> 0 \<and> Account_phoneNumber (accs ! j) \<noteq> phone"
        proof (cases "j = i")
          case True
          thus ?thesis using go by simp
        next
          case False
          hence "i + 1 \<le> j" using h by arith
          thus ?thesis using n(3) h by blast
        qed
      qed
      with n show ?thesis
        by (intro exI [of _ n]) simp
    qed
  qed
qed

lemma getByPhone_loop_complete:
  "i \<le> j \<Longrightarrow> j < length accs \<Longrightarrow>
     Account_subRosaID (accs ! j) = 0 \<or> Account_phoneNumber (accs ! j) = phone \<Longrightarrow>
     \<exists>r. accounts_getByPhone_loop L accs phone i = Inr r"
proof (induction L accs phone i rule: accounts_getByPhone_loop.induct)
  case (1 L accs phone i)
  show ?case
  proof (cases "Account_subRosaID (accs ! i) = 0 \<or> Account_phoneNumber (accs ! i) = phone")
    case True
    moreover have "\<not> length accs \<le> i" using "1.prems" by simp
    ultimately show ?thesis
      by (auto simp add: accounts_getByPhone_loop.simps [of L accs phone i])
  next
    case go: False
    with "1.prems" have ne: "i \<noteq> j" by auto
    hence "i + 1 \<le> j" using "1.prems" by simp
    moreover have nl: "\<not> length accs \<le> i" using "1.prems" by simp
    ultimately have "\<exists>r. accounts_getByPhone_loop L accs phone (i + 1) = Inr r"
      using "1.IH" [OF nl] go "1.prems" by simp
    with nl go show ?thesis
      by (simp add: accounts_getByPhone_loop.simps [of L accs phone i])
  qed
qed

text \<open>
  C10, as the code has it.  \<open>accounts::getCount\<close> and \<open>accounts::getAll\<close> end without
  a read outside the array exactly when some slot below the capacity has
  \<open>subRosaID\<close> zero; the count is then the index of the first such slot.
  \<open>accounts::getByPhone\<close> also stops at the first slot whose phone number is the one
  asked for, so it ends without a read outside the array exactly when some slot below
  the capacity has \<open>subRosaID\<close> zero or that phone number.  \<open>accounts::getByIndex\<close>
  compares the index with the capacity and raises instead.
\<close>

theorem accounts_scans_in_bounds:
  "((\<exists>count. accounts_getCount e = Inr count)
      = (\<exists>j < length (accounts e). Account_subRosaID (accounts e ! j) = 0))
   \<and> ((\<exists>arr. accounts_getAll L e = Inr arr)
      = (\<exists>j < length (accounts e). Account_subRosaID (accounts e ! j) = 0))
   \<and> ((\<exists>r. accounts_getByPhone L e phone = Inr r)
      = (\<exists>j < length (accounts e). Account_subRosaID (accounts e ! j) = 0
                                    \<or> Account_phoneNumber (accounts e ! j) = phone))
   \<and> (accounts_getCount_loop (accounts e) 0 = Inr n \<longrightarrow>
        accounts_getCount e = Inr (of_nat n) \<and> n < length (accounts e)
        \<and> Account_subRosaID (accounts e ! n) = 0
        \<and> (\<forall>j < n. Account_subRosaID (accounts e ! j) \<noteq> 0))
   \<and> ((accounts_getByIndex L idx = Inl (invalid_argument errorOutOfRange))
      = (maxNumberOfAccounts L \<le> idx))"
proof -
  have c: "(\<exists>count. accounts_getCount e = Inr count)
      = (\<exists>j < length (accounts e). Account_subRosaID (accounts e ! j) = 0)"
  proof
    assume "\<exists>count. accounts_getCount e = Inr count"
    then obtain n where "accounts_getCount_loop (accounts e) 0 = Inr n"
      by (auto simp add: accounts_getCount_def split: sum.splits)
    from getCount_loop_sound [OF this]
    show "\<exists>j < length (accounts e). Account_subRosaID (accounts e ! j) = 0"
      by blast
  next
    assume "\<exists>j < length (accounts e). Account_subRosaID (accounts e ! j) = 0"
    then obtain j where "j < length (accounts e)" "Account_subRosaID (accounts e ! j) = 0"
      by blast
    with getCount_loop_complete [of 0 j "accounts e"]
    show "\<exists>count. accounts_getCount e = Inr count"
      by (auto simp add: accounts_getCount_def)
  qed
  have a: "(\<exists>arr. accounts_getAll L e = Inr arr)
      = (\<exists>j < length (accounts e). Account_subRosaID (accounts e ! j) = 0)"
  proof
    assume "\<exists>arr. accounts_getAll L e = Inr arr"
    then obtain r where "accounts_getAll_loop L (accounts e) 0 [] = Inr r"
      by (auto simp add: accounts_getAll_def)
    from getAll_loop_sound [OF this]
    show "\<exists>j < length (accounts e). Account_subRosaID (accounts e ! j) = 0"
      by blast
  next
    assume "\<exists>j < length (accounts e). Account_subRosaID (accounts e ! j) = 0"
    then obtain j where "j < length (accounts e)" "Account_subRosaID (accounts e ! j) = 0"
      by blast
    with getAll_loop_complete [of 0 j "accounts e" L "[]"]
    show "\<exists>arr. accounts_getAll L e = Inr arr"
      by (simp add: accounts_getAll_def)
  qed
  have p: "(\<exists>r. accounts_getByPhone L e phone = Inr r)
      = (\<exists>j < length (accounts e). Account_subRosaID (accounts e ! j) = 0
                                    \<or> Account_phoneNumber (accounts e ! j) = phone)"
  proof
    assume "\<exists>r. accounts_getByPhone L e phone = Inr r"
    then obtain r where "accounts_getByPhone_loop L (accounts e) phone 0 = Inr r"
      by (auto simp add: accounts_getByPhone_def)
    from getByPhone_loop_sound [OF this] obtain n where
      "n < length (accounts e)"
      "if Account_subRosaID (accounts e ! n) = 0 then r = None
       else Account_phoneNumber (accounts e ! n) = phone
            \<and> r = Some (slot_ptr (Engine_accounts L) (of_nat n))"
      by blast
    thus "\<exists>j < length (accounts e). Account_subRosaID (accounts e ! j) = 0
                                    \<or> Account_phoneNumber (accounts e ! j) = phone"
      by (cases "Account_subRosaID (accounts e ! n) = 0") auto
  next
    assume "\<exists>j < length (accounts e). Account_subRosaID (accounts e ! j) = 0
                                    \<or> Account_phoneNumber (accounts e ! j) = phone"
    then obtain j where "j < length (accounts e)"
      "Account_subRosaID (accounts e ! j) = 0 \<or> Account_phoneNumber (accounts e ! j) = phone"
      by blast
    with getByPhone_loop_complete [of 0 j "accounts e" phone L]
    show "\<exists>r. accounts_getByPhone L e phone = Inr r"
      by (simp add: accounts_getByPhone_def)
  qed
  have v: "accounts_getCount_loop (accounts e) 0 = Inr n \<longrightarrow>
        accounts_getCount e = Inr (of_nat n) \<and> n < length (accounts e)
        \<and> Account_subRosaID (accounts e ! n) = 0
        \<and> (\<forall>j < n. Account_subRosaID (accounts e ! j) \<noteq> 0)"
  proof
    assume l: "accounts_getCount_loop (accounts e) 0 = Inr n"
    from getCount_loop_sound [OF l] l
    show "accounts_getCount e = Inr (of_nat n) \<and> n < length (accounts e)
        \<and> Account_subRosaID (accounts e ! n) = 0
        \<and> (\<forall>j < n. Account_subRosaID (accounts e ! j) \<noteq> 0)"
      by (simp add: accounts_getCount_def)
  qed
  have i: "(accounts_getByIndex L idx = Inl (invalid_argument errorOutOfRange))
      = (maxNumberOfAccounts L \<le> idx)"
    by (simp add: accounts_getByIndex_def)
  from c a p v i show ?thesis
    by blast
qed

theorem accounts_scans_in_bounds_witness:
  "accounts_getCount_loop (accounts example_engine) 0 = Inr 2
   \<and> accounts_getCount example_engine = Inr 2
   \<and> accounts_getAll example_layout example_engine = Inr [0x4000, 0x4010]
   \<and> accounts_getByPhone example_layout example_engine 2560002 = Inr (Some 0x4010)
   \<and> accounts_getByPhone example_layout example_engine 5 = Inr None
   \<and> accounts_getByIndex example_layout 4 = Inl (invalid_argument errorOutOfRange)"
  using accounts_scans_in_bounds [of example_engine example_layout 2560002 2 4]
  by (simp add: accounts_getCount_def accounts_getAll_def accounts_getByPhone_def
      accounts_getByIndex_def accounts_getCount_loop.simps accounts_getAll_loop.simps
      accounts_getByPhone_loop.simps example_engine_def example_layout_def slot_ptr_def)

text \<open>Four accounts, none with \<open>subRosaID\<close> zero: \<open>getByPhone\<close> finds the second by
  its number and reads nothing outside the array, where \<open>getCount\<close> runs off the end.\<close>

theorem accounts_getByPhone_no_zero_slot_counterexample:
  "map Account_subRosaID example_full_accounts = [7, 9, 5, 3]
   \<and> accounts_getByPhone example_layout (example_engine\<lparr>accounts := example_full_accounts\<rparr>)
        2560002 = Inr (Some 0x4010)
   \<and> accounts_getCount (example_engine\<lparr>accounts := example_full_accounts\<rparr>)
        = Inl (OutOfBounds 4)"
  by (simp add: accounts_getCount_def accounts_getByPhone_def
      accounts_getCount_loop.simps accounts_getByPhone_loop.simps
      example_full_accounts_def example_layout_def slot_ptr_def)

section \<open>A failed request is a value\<close>

lemma headers_table_lookup:
  "map_of (foldl (\<lambda>t (k, v). AList.update k (LString v) t) t hs) k
     = (case map_of (rev hs) k of Some v \<Rightarrow> Some (LString v) | None \<Rightarrow> map_of t k)"
proof (induction hs arbitrary: t)
  case Nil
  then show ?case by simp
next
  case (Cons h hs)
  obtain k' v' where h: "h = (k', v')" by (cases h)
  show ?case
    using Cons.IH [of "AList.update k' (LString v') t"] h
    by (simp add: update_conv' map_add_def split: option.splits)
qed

lemma handleSyncHTTPResponse_Some:
  "handleSyncHTTPResponse (Some r)
     = LTable [(''status'', LNumber (sint (Response_status r))),
               (''body'', LString (Response_body r)),
               (''headers'', LTable (foldl (\<lambda>t (k, v). AList.update k (LString v) t) []
                                       (Response_headers r)))]"
  by (simp add: handleSyncHTTPResponse_def Let_def)

text \<open>
  C7.  A request that failed is reported as a value.  Each blocking form asks the
  network once, for the request with \<open>Connection: close\<close> among its headers, and
  returns what \<open>handleSyncHTTPResponse\<close> makes of the result: nil exactly when the
  request failed, and for a completed exchange, whatever its status, the table of the
  status, the body and the headers, each header under its name with the value the
  response gave it.  \<open>handleHTTPResponse\<close> appends one entry to the response queue:
  after a failure the entry with the flag false, status zero, no body and no headers,
  after a completed exchange the entry with the flag true and the status, body and
  headers received.  A round of the worker takes the first request off its queue,
  asks the network for it once and appends the entry for the result; it stops on an
  empty queue.  None of these functions has an error outcome.
\<close>

theorem http_failure_is_data:
  "http_getSync net scheme path headers
     = handleSyncHTTPResponse
         (net (HttpGet scheme path
                 (Headers_emplace (''Connection'', ''close'') (headers_of_table headers))))
   \<and> http_postSync net scheme path headers body contentType
     = handleSyncHTTPResponse
         (net (HttpPost scheme path
                 (Headers_emplace (''Connection'', ''close'') (headers_of_table headers))
                 body contentType))
   \<and> (http_getSync net scheme path headers = LNil)
       = (net (HttpGet scheme path
                 (Headers_emplace (''Connection'', ''close'') (headers_of_table headers))) = None)
   \<and> (http_postSync net scheme path headers body contentType = LNil)
       = (net (HttpPost scheme path
                 (Headers_emplace (''Connection'', ''close'') (headers_of_table headers))
                 body contentType) = None)
   \<and> handleSyncHTTPResponse None = LNil
   \<and> (\<exists>hs. handleSyncHTTPResponse (Some r)
               = LTable [(''status'', LNumber (sint (Response_status r))),
                         (''body'', LString (Response_body r)),
                         (''headers'', LTable hs)]
         \<and> (\<forall>k. map_of hs k = map_option LString (map_of (rev (Response_headers r)) k)))
   \<and> handleHTTPResponse req None q
       = q\<lparr>responseQueue := responseQueue q
            @ [\<lparr>resp_callback = req_callback req, resp_responded = False,
                resp_status = 0, resp_body = [], resp_headers = []\<rparr>]\<rparr>
   \<and> handleHTTPResponse req (Some r) q
       = q\<lparr>responseQueue := responseQueue q
            @ [\<lparr>resp_callback = req_callback req, resp_responded = True,
                resp_status = Response_status r, resp_body = Response_body r,
                resp_headers = Response_headers r\<rparr>]\<rparr>
   \<and> (requestQueue q = [] \<longrightarrow> HTTPThread_step net q = None)
   \<and> (requestQueue q = rq # rest \<longrightarrow>
        HTTPThread_step net q
          = Some (handleHTTPResponse rq
                    (net (case req_type rq of
                            LuaRequestType_get \<Rightarrow>
                              HttpGet (req_scheme rq) (req_path rq)
                                (Headers_emplace (''Connection'', ''close'') (req_headers rq))
                          | LuaRequestType_post \<Rightarrow>
                              HttpPost (req_scheme rq) (req_path rq)
                                (Headers_emplace (''Connection'', ''close'') (req_headers rq))
                                (req_body rq) (req_contentType rq)))
                    (q\<lparr>requestQueue := rest\<rparr>)))"
proof -
  have nil: "\<And>res. (handleSyncHTTPResponse res = LNil) = (res = None)"
    by (simp add: handleSyncHTTPResponse_def Let_def split: option.splits)
  have tab: "\<exists>hs. handleSyncHTTPResponse (Some r)
               = LTable [(''status'', LNumber (sint (Response_status r))),
                         (''body'', LString (Response_body r)),
                         (''headers'', LTable hs)]
         \<and> (\<forall>k. map_of hs k = map_option LString (map_of (rev (Response_headers r)) k))"
  proof (intro exI conjI allI)
    show "handleSyncHTTPResponse (Some r)
            = LTable [(''status'', LNumber (sint (Response_status r))),
                      (''body'', LString (Response_body r)),
                      (''headers'', LTable (foldl (\<lambda>t (k, v). AList.update k (LString v) t) []
                                              (Response_headers r)))]"
      by (rule handleSyncHTTPResponse_Some)
  next
    fix k
    show "map_of (foldl (\<lambda>t (k, v). AList.update k (LString v) t) [] (Response_headers r)) k
            = map_option LString (map_of (rev (Response_headers r)) k)"
      by (simp add: headers_table_lookup split: option.splits)
  qed
  have empty: "requestQueue q = [] \<longrightarrow> HTTPThread_step net q = None"
    by (simp add: HTTPThread_step_def)
  have step: "requestQueue q = rq # rest \<longrightarrow>
        HTTPThread_step net q
          = Some (handleHTTPResponse rq
                    (net (case req_type rq of
                            LuaRequestType_get \<Rightarrow>
                              HttpGet (req_scheme rq) (req_path rq)
                                (Headers_emplace (''Connection'', ''close'') (req_headers rq))
                          | LuaRequestType_post \<Rightarrow>
                              HttpPost (req_scheme rq) (req_path rq)
                                (Headers_emplace (''Connection'', ''close'') (req_headers rq))
                                (req_body rq) (req_contentType rq)))
                    (q\<lparr>requestQueue := rest\<rparr>))"
    by (cases "req_type rq")
       (simp_all add: HTTPThread_step_def handleHTTPResponse_def Let_def split: option.splits)
  have sync: "http_getSync net scheme path headers
     = handleSyncHTTPResponse
         (net (HttpGet scheme path
                 (Headers_emplace (''Connection'', ''close'') (headers_of_table headers))))"
    "http_postSync net scheme path headers body contentType
     = handleSyncHTTPResponse
         (net (HttpPost scheme path
                 (Headers_emplace (''Connection'', ''close'') (headers_of_table headers))
                 body contentType))"
    by (simp_all add: http_getSync_def http_postSync_def Let_def)
  have resp: "handleHTTPResponse req None q
       = q\<lparr>responseQueue := responseQueue q
            @ [\<lparr>resp_callback = req_callback req, resp_responded = False,
                resp_status = 0, resp_body = [], resp_headers = []\<rparr>]\<rparr>"
    "handleHTTPResponse req (Some r) q
       = q\<lparr>responseQueue := responseQueue q
            @ [\<lparr>resp_callback = req_callback req, resp_responded = True,
                resp_status = Response_status r, resp_body = Response_body r,
                resp_headers = Response_headers r\<rparr>]\<rparr>"
    by (simp_all add: handleHTTPResponse_def)
  have none: "handleSyncHTTPResponse None = LNil"
    by (simp add: handleSyncHTTPResponse_def)
  show ?thesis
    by (intro conjI sync resp none tab empty step) (simp_all only: sync nil)
qed

text \<open>A request with two headers, queued and served by a network that fails, and the
  same request answered with status 500 and a header sent twice.\<close>

theorem http_failure_is_data_witness:
  "headers_of_table [(''X-Token'', ''t''), (''accept'', ''*/*'')]
     = [(''accept'', ''*/*''), (''X-Token'', ''t'')]
   \<and> http_getSync (\<lambda>c. None) ''http://example.org'' ''/x''
        [(''X-Token'', ''t''), (''accept'', ''*/*'')] = LNil
   \<and> http_postSync (\<lambda>c. None) ''http://example.org'' ''/x'' [] ''{}'' ''application/json'' = LNil
   \<and> http_getSync
        (\<lambda>c. if c = HttpGet ''http://example.org'' ''/x''
                       [(''accept'', ''*/*''), (''Connection'', ''close''), (''X-Token'', ''t'')]
              then Some \<lparr>Response_status = 500, Response_body = ''down'',
                         Response_headers = [(''Server'', ''a''), (''Server'', ''b'')]\<rparr>
              else None)
        ''http://example.org'' ''/x'' [(''X-Token'', ''t''), (''accept'', ''*/*'')]
      = LTable [(''status'', LNumber 500), (''body'', LString ''down''),
                (''headers'', LTable [(''Server'', LString ''b'')])]
   \<and> requestQueue (l_http_get ''http://example.org'' ''/x'' [] 1
                      \<lparr>requestQueue = [], responseQueue = []\<rparr>)
      = [\<lparr>req_type = LuaRequestType_get, req_scheme = ''http://example.org'',
          req_path = ''/x'', req_callback = 1, req_contentType = [], req_body = [],
          req_headers = []\<rparr>]
   \<and> HTTPThread_step (\<lambda>c. None)
        (l_http_get ''http://example.org'' ''/x'' [] 1 \<lparr>requestQueue = [], responseQueue = []\<rparr>)
      = Some \<lparr>requestQueue = [],
              responseQueue = [\<lparr>resp_callback = 1, resp_responded = False, resp_status = 0,
                                resp_body = [], resp_headers = []\<rparr>]\<rparr>"
proof -
  let ?rq = "\<lparr>req_type = LuaRequestType_get, req_scheme = ''http://example.org'',
          req_path = ''/x'', req_callback = 1, req_contentType = [], req_body = [],
          req_headers = []\<rparr>"
  let ?q = "l_http_get ''http://example.org'' ''/x'' [] 1 \<lparr>requestQueue = [], responseQueue = []\<rparr>"
  have hq: "requestQueue ?q = [?rq]"
    by (simp add: l_http_get_def headers_of_table_def)
  have tbl: "headers_of_table [(''X-Token'', ''t''), (''accept'', ''*/*'')]
     = [(''accept'', ''*/*''), (''X-Token'', ''t'')]"
    by (simp add: headers_of_table_def tolower_def)
  have step: "HTTPThread_step (\<lambda>c. None) ?q
      = Some \<lparr>requestQueue = [],
              responseQueue = [\<lparr>resp_callback = 1, resp_responded = False, resp_status = 0,
                                resp_body = [], resp_headers = []\<rparr>]\<rparr>"
  proof -
    have "requestQueue ?q = ?rq # [] \<longrightarrow>
        HTTPThread_step (\<lambda>c. None) ?q
          = Some (handleHTTPResponse ?rq
                    ((\<lambda>c. None) (case req_type ?rq of
                            LuaRequestType_get \<Rightarrow>
                              HttpGet (req_scheme ?rq) (req_path ?rq)
                                (Headers_emplace (''Connection'', ''close'') (req_headers ?rq))
                          | LuaRequestType_post \<Rightarrow>
                              HttpPost (req_scheme ?rq) (req_path ?rq)
                                (Headers_emplace (''Connection'', ''close'') (req_headers ?rq))
                                (req_body ?rq) (req_contentType ?rq)))
                    (?q\<lparr>requestQueue := []\<rparr>))"
      using http_failure_is_data [where net = "\<lambda>c. None" and q = ?q and rq = ?rq
              and rest = "[]" and req = ?rq and scheme = "[]" and path = "[]"
              and headers = "[]" and body = "[]" and contentType = "[]"
              and r = "\<lparr>Response_status = 0, Response_body = [], Response_headers = []\<rparr>"]
      by - (elim conjE, assumption)
    with hq have "HTTPThread_step (\<lambda>c. None) ?q
          = Some (handleHTTPResponse ?rq None (?q\<lparr>requestQueue := []\<rparr>))"
      by simp
    then show ?thesis
      by (simp add: handleHTTPResponse_def l_http_get_def)
  qed
  have g: "http_getSync (\<lambda>c. None) ''http://example.org'' ''/x''
        [(''X-Token'', ''t''), (''accept'', ''*/*'')] = LNil"
    "http_postSync (\<lambda>c. None) ''http://example.org'' ''/x'' [] ''{}'' ''application/json'' = LNil"
    by (simp_all add: http_getSync_def http_postSync_def handleSyncHTTPResponse_def Let_def)
  have ok: "http_getSync
        (\<lambda>c. if c = HttpGet ''http://example.org'' ''/x''
                       [(''accept'', ''*/*''), (''Connection'', ''close''), (''X-Token'', ''t'')]
              then Some \<lparr>Response_status = 500, Response_body = ''down'',
                         Response_headers = [(''Server'', ''a''), (''Server'', ''b'')]\<rparr>
              else None)
        ''http://example.org'' ''/x'' [(''X-Token'', ''t''), (''accept'', ''*/*'')]
      = LTable [(''status'', LNumber 500), (''body'', LString ''down''),
                (''headers'', LTable [(''Server'', LString ''b'')])]"
    by (simp add: http_getSync_def handleSyncHTTPResponse_def Let_def headers_of_table_def
        tolower_def)
  from tbl g ok hq step show ?thesis
    by simp
qed

section \<open>The reset trampoline\<close>

lemma call_out_eq:
  "call_out a f w =
     (fst (f w), (snd (f w))\<lparr>hookInstalled := hookInstalled w, trace := trace w @ [a]\<rparr>)"
  by (simp add: call_out_def case_prod_beta)

text \<open>A scope around one call out of the shim: the callee runs in the state without
  the redirect, and the scope leaves the redirects as it found them.\<close>

lemma scoped_call_state:
  "ScopedHookRemove h (call_out a body) w
     = (fst (body (without_redirect h w)),
        (snd (body (without_redirect h w)))
          \<lparr>hookInstalled := hookInstalled w, trace := trace w @ scoped_actions w h [a]\<rparr>)"
proof (cases "hookInstalled w h")
  case True
  hence "(hookInstalled w)(h := True) = hookInstalled w"
    by (simp add: fun_upd_idem)
  with True show ?thesis
    by (simp add: ScopedHookRemove_def call_out_eq without_redirect_def scoped_actions_def
        Let_def case_prod_beta)
next
  case False
  thus ?thesis
    by (simp add: ScopedHookRemove_def call_out_eq without_redirect_def scoped_actions_def
        Let_def case_prod_beta)
qed

lemma reset_scope_state:
  "snd (ScopedHookRemove ResetGameHook (\<lambda>w. ((), Engine_resetGame H w)) w)
     = (resetGame H (without_redirect ResetGameHook w))
         \<lparr>hookInstalled := hookInstalled w,
          trace := trace w @ scoped_actions w ResetGameHook [EngineCall CallResetGame]\<rparr>"
proof -
  have "(\<lambda>w. ((), Engine_resetGame H w))
          = call_out (EngineCall CallResetGame) (\<lambda>w. ((), resetGame H w))"
    by (rule ext) (simp add: Engine_resetGame_def call_out_eq)
  thus ?thesis
    by (simp add: scoped_call_state)
qed

lemma call_lua_eq:
  "call_lua f name reason w =
     (fst (f name reason w),
      (snd (f name reason w))\<lparr>hookInstalled := hookInstalled w,
                               trace := trace w @ [LuaCall name reason]\<rparr>)"
  by (simp add: call_lua_def call_out_eq)

lemma noLuaCallError_eq:
  "noLuaCallError res w =
     (case res of
        Valid vs \<Rightarrow> (True, w)
      | Invalid what \<Rightarrow> (False, w\<lparr>trace := trace w @ [ConsoleLog (luaErrorText what)]\<rparr>))"
  by (cases res) (simp_all add: noLuaCallError_def printLuaError_def Console_log_def)

text \<open>A call of the script followed by \<open>noLuaCallError\<close> on its result.\<close>

lemma checked_call_state:
  "noLuaCallError (fst (call_lua f name reason w)) (snd (call_lua f name reason w))
     = ((\<exists>vs. fst (f name reason w) = Valid vs),
        (snd (f name reason w))
          \<lparr>hookInstalled := hookInstalled w,
           trace := trace w @ [LuaCall name reason] @ error_lines (fst (f name reason w))\<rparr>)"
  by (cases "fst (f name reason w)")
     (simp_all add: call_lua_eq noLuaCallError_eq error_lines_def)

lemma hooked_none_state:
  "hookAndReset_hooked H None reason w
     = (resetGame H (without_redirect ResetGameHook w))
         \<lparr>hookInstalled := hookInstalled w,
          trace := trace w @ scoped_actions w ResetGameHook [EngineCall CallResetGame]\<rparr>"
  by (simp add: hookAndReset_hooked_def reset_scope_state)

lemma hooked_some_state:
  "hookAndReset_hooked H (Some f) reason w
     = (let pre = f ''ResetGame'' reason w;
            wa = (snd pre)\<lparr>hookInstalled := hookInstalled w,
                            trace := trace w @ [LuaCall ''ResetGame'' reason]
                                       @ error_lines (fst pre)\<rparr>;
            w2 = (resetGame H (without_redirect ResetGameHook wa))
                   \<lparr>hookInstalled := hookInstalled wa,
                    trace := trace wa
                               @ scoped_actions wa ResetGameHook [EngineCall CallResetGame]\<rparr>;
            post = f ''PostResetGame'' reason w2;
            wp = (snd post)\<lparr>hookInstalled := hookInstalled w2,
                             trace := trace w2 @ [LuaCall ''PostResetGame'' reason]
                                        @ error_lines (fst post)\<rparr>
        in if \<exists>vs. fst pre = Valid vs \<and> as_bool (Valid vs) then wa else wp)"
proof -
  have veto: "(if (\<exists>vs. fst (f ''ResetGame'' reason w) = Valid vs)
               then as_bool (fst (f ''ResetGame'' reason w)) else False)
        = (\<exists>vs. fst (f ''ResetGame'' reason w) = Valid vs \<and> as_bool (Valid vs))"
    by auto
  have "hookAndReset_hooked H (Some f) reason w
     = (let c = noLuaCallError (fst (call_lua f ''ResetGame'' reason w))
                  (snd (call_lua f ''ResetGame'' reason w))
        in if \<not> (if fst c then as_bool (fst (f ''ResetGame'' reason w)) else False)
           then (let w2 = snd (ScopedHookRemove ResetGameHook
                                 (\<lambda>w. ((), Engine_resetGame H w)) (snd c))
                 in snd (noLuaCallError (fst (call_lua f ''PostResetGame'' reason w2))
                           (snd (call_lua f ''PostResetGame'' reason w2))))
           else snd c)"
    by (simp add: hookAndReset_hooked_def Let_def case_prod_beta call_lua_eq)
  also have "\<dots> = (let pre = f ''ResetGame'' reason w;
            wa = (snd pre)\<lparr>hookInstalled := hookInstalled w,
                            trace := trace w @ [LuaCall ''ResetGame'' reason]
                                       @ error_lines (fst pre)\<rparr>;
            w2 = (resetGame H (without_redirect ResetGameHook wa))
                   \<lparr>hookInstalled := hookInstalled wa,
                    trace := trace wa
                               @ scoped_actions wa ResetGameHook [EngineCall CallResetGame]\<rparr>;
            post = f ''PostResetGame'' reason w2;
            wp = (snd post)\<lparr>hookInstalled := hookInstalled w2,
                             trace := trace w2 @ [LuaCall ''PostResetGame'' reason]
                                        @ error_lines (fst post)\<rparr>
        in if \<exists>vs. fst pre = Valid vs \<and> as_bool (Valid vs) then wa else wp)"
    unfolding checked_call_state reset_scope_state Let_def fst_conv snd_conv veto
    by auto
  finally show ?thesis .
qed

lemma count_scoped:
  "count_list (scoped_actions w h [EngineCall c]) (EngineCall c) = 1"
  by (simp add: scoped_actions_def)

lemma count_error_lines:
  "count_list (error_lines res) (EngineCall c) = 0"
  by (cases res) (simp_all add: error_lines_def)

text \<open>With the event enabled the second revision is the first.\<close>

lemma hookAndReset_first_revision:
  "enabledKeys w ResetGame \<Longrightarrow> hookAndReset H func reason w = hookAndReset_ungated H func reason w"
  by (simp add: hookAndReset_def hookAndReset_ungated_def)

text \<open>
  C3.  What one invocation of \<open>hookAndReset\<close> does, as the state it returns.  Write
  \<open>original v\<close> for the state after the original \<open>resetGame\<close> has run once from
  \<open>v\<close>: the host's function applied to \<open>v\<close> without the redirect of the reset, the
  redirects then as they were in \<open>v\<close>, and the call, between the removal and the
  reinstatement when the redirect was installed, added to the trace.  With the event
  enabled and a callback there, \<open>hook.run("ResetGame", reason)\<close> is called first, in
  the state of entry.  If it returns a true value the result is the state \<open>wa\<close> the
  callback left, with that call as the only action: the host's function is not applied
  and \<open>"PostResetGame"\<close> is not run.  Otherwise the result is what
  \<open>hook.run("PostResetGame", reason)\<close> leaves when called in \<open>original wa\<close>, the
  line of a failed call on the console after each call of the script.  With no callback,
  or with the event disabled, the result is \<open>original w\<close>, and the script is not
  called.  The redirect is never installed in the state in which the host's function
  starts, the host's memory there is that of the state before, and the invocation
  leaves the redirects as found; the original is called once, or not at all when the
  callback vetoed.
\<close>

theorem hookAndReset_sequence:
  "(let pre = f ''ResetGame'' reason w;
        wa = (snd pre)\<lparr>hookInstalled := hookInstalled w,
                        trace := trace w @ [LuaCall ''ResetGame'' reason]
                                   @ error_lines (fst pre)\<rparr>;
        original = (\<lambda>v. (resetGame H (without_redirect ResetGameHook v))
                      \<lparr>hookInstalled := hookInstalled v,
                       trace := trace v
                                  @ scoped_actions v ResetGameHook [EngineCall CallResetGame]\<rparr>);
        post = f ''PostResetGame'' reason (original wa);
        wp = (snd post)\<lparr>hookInstalled := hookInstalled (original wa),
                         trace := trace (original wa) @ [LuaCall ''PostResetGame'' reason]
                                    @ error_lines (fst post)\<rparr>;
        veto = (\<exists>vs. fst pre = Valid vs \<and> as_bool (Valid vs))
    in (enabledKeys w ResetGame \<and> veto \<longrightarrow>
          hookAndReset H (Some f) reason w = wa \<and> error_lines (fst pre) = [])
     \<and> (enabledKeys w ResetGame \<and> \<not> veto \<longrightarrow> hookAndReset H (Some f) reason w = wp)
     \<and> (enabledKeys w ResetGame \<longrightarrow> hookAndReset H None reason w = original w)
     \<and> (\<not> enabledKeys w ResetGame \<longrightarrow> hookAndReset H func reason w = original w))
   \<and> (\<forall>v. \<not> hookInstalled (without_redirect ResetGameHook v) ResetGameHook
          \<and> eng (without_redirect ResetGameHook v) = eng v
          \<and> enabledKeys (without_redirect ResetGameHook v) = enabledKeys v)
   \<and> scoped_actions w ResetGameHook [EngineCall CallResetGame]
        = (if hookInstalled w ResetGameHook
           then [HookRemove ResetGameHook, EngineCall CallResetGame, HookInstall ResetGameHook]
           else [EngineCall CallResetGame])
   \<and> count_list (new_actions w (hookAndReset H func reason w)) (EngineCall CallResetGame)
        = (if enabledKeys w ResetGame
              \<and> (\<exists>g vs. func = Some g \<and> fst (g ''ResetGame'' reason w) = Valid vs
                          \<and> as_bool (Valid vs))
           then 0 else 1)
   \<and> hookInstalled (hookAndReset H func reason w) = hookInstalled w"
proof -
  have st: "(let pre = f ''ResetGame'' reason w;
        wa = (snd pre)\<lparr>hookInstalled := hookInstalled w,
                        trace := trace w @ [LuaCall ''ResetGame'' reason]
                                   @ error_lines (fst pre)\<rparr>;
        original = (\<lambda>v. (resetGame H (without_redirect ResetGameHook v))
                      \<lparr>hookInstalled := hookInstalled v,
                       trace := trace v
                                  @ scoped_actions v ResetGameHook [EngineCall CallResetGame]\<rparr>);
        post = f ''PostResetGame'' reason (original wa);
        wp = (snd post)\<lparr>hookInstalled := hookInstalled (original wa),
                         trace := trace (original wa) @ [LuaCall ''PostResetGame'' reason]
                                    @ error_lines (fst post)\<rparr>;
        veto = (\<exists>vs. fst pre = Valid vs \<and> as_bool (Valid vs))
    in (enabledKeys w ResetGame \<and> veto \<longrightarrow>
          hookAndReset H (Some f) reason w = wa \<and> error_lines (fst pre) = [])
     \<and> (enabledKeys w ResetGame \<and> \<not> veto \<longrightarrow> hookAndReset H (Some f) reason w = wp)
     \<and> (enabledKeys w ResetGame \<longrightarrow> hookAndReset H None reason w = original w)
     \<and> (\<not> enabledKeys w ResetGame \<longrightarrow> hookAndReset H func reason w = original w))"
    using hooked_some_state [of H f reason w]
    by (auto simp add: hookAndReset_def hooked_none_state reset_scope_state Let_def
        error_lines_def)
  have wr: "\<forall>v. \<not> hookInstalled (without_redirect ResetGameHook v) ResetGameHook
          \<and> eng (without_redirect ResetGameHook v) = eng v
          \<and> enabledKeys (without_redirect ResetGameHook v) = enabledKeys v"
    by (simp add: without_redirect_def)
  have sc: "scoped_actions w ResetGameHook [EngineCall CallResetGame]
        = (if hookInstalled w ResetGameHook
           then [HookRemove ResetGameHook, EngineCall CallResetGame, HookInstall ResetGameHook]
           else [EngineCall CallResetGame])"
    by (simp add: scoped_actions_def)
  have tr_some: "\<And>g. hookInstalled (hookAndReset_hooked H (Some g) reason w) = hookInstalled w
       \<and> count_list (new_actions w (hookAndReset_hooked H (Some g) reason w))
           (EngineCall CallResetGame)
         = (if \<exists>vs. fst (g ''ResetGame'' reason w) = Valid vs \<and> as_bool (Valid vs)
            then 0 else 1)"
    by (simp add: hooked_some_state Let_def new_actions_def count_error_lines count_scoped)
  have e: "hookInstalled (hookAndReset H func reason w) = hookInstalled w"
    using tr_some by (cases func) (simp_all add: hookAndReset_def hooked_none_state reset_scope_state)
  have n: "count_list (new_actions w (hookAndReset H func reason w)) (EngineCall CallResetGame)
        = (if enabledKeys w ResetGame
              \<and> (\<exists>g vs. func = Some g \<and> fst (g ''ResetGame'' reason w) = Valid vs
                          \<and> as_bool (Valid vs))
           then 0 else 1)"
    using tr_some
    by (cases func)
       (simp_all add: hookAndReset_def hooked_none_state reset_scope_state new_actions_def
          count_scoped)
  from st wr sc n e show ?thesis
    by (intro conjI)
qed

text \<open>A host whose reset reads the redirect: it leaves no streets when the redirect is
  away, as it is in every run below, and the two streets are still there after a veto.\<close>

theorem hookAndReset_sequence_witness:
  "enabledKeys example_world ResetGame
   \<and> fst (example_veto ''ResetGame'' 1 example_world) = Valid [LBool True]
   \<and> hookAndReset example_reset_host (Some example_veto) 1 example_world
       = example_world\<lparr>trace := [LuaCall ''ResetGame'' 1]\<rparr>
   \<and> numStreets (eng (hookAndReset example_reset_host (Some example_veto) 1 example_world)) = 2
   \<and> hookAndReset example_reset_host (Some example_pass) 1 example_world
       = example_world\<lparr>eng := example_engine\<lparr>numStreets := 0\<rparr>,
           trace := [LuaCall ''ResetGame'' 1, HookRemove ResetGameHook, EngineCall CallResetGame,
                     HookInstall ResetGameHook, LuaCall ''PostResetGame'' 1]\<rparr>
   \<and> hookAndReset example_reset_host None 1 example_world
       = example_world\<lparr>eng := example_engine\<lparr>numStreets := 0\<rparr>,
           trace := [HookRemove ResetGameHook, EngineCall CallResetGame,
                     HookInstall ResetGameHook]\<rparr>
   \<and> hookAndReset example_reset_host (Some example_veto) 1
        (example_world\<lparr>enabledKeys := (\<lambda>k. False)\<rparr>)
       = example_world\<lparr>eng := example_engine\<lparr>numStreets := 0\<rparr>,
           enabledKeys := (\<lambda>k. False),
           trace := [HookRemove ResetGameHook, EngineCall CallResetGame,
                     HookInstall ResetGameHook]\<rparr>"
proof -
  have en: "enabledKeys example_world ResetGame"
    and veto: "fst (example_veto ''ResetGame'' 1 example_world) = Valid [LBool True]"
    by (simp_all add: example_world_def example_veto_def)
  have a: "hookAndReset example_reset_host (Some example_veto) 1 example_world
       = example_world\<lparr>trace := [LuaCall ''ResetGame'' 1]\<rparr>"
    using hookAndReset_sequence [where f = example_veto and reason = 1 and w = example_world
            and H = example_reset_host and func = None]
    by (simp add: Let_def example_veto_def example_world_def error_lines_def)
  have b: "hookAndReset example_reset_host (Some example_pass) 1 example_world
       = example_world\<lparr>eng := example_engine\<lparr>numStreets := 0\<rparr>,
           trace := [LuaCall ''ResetGame'' 1, HookRemove ResetGameHook, EngineCall CallResetGame,
                     HookInstall ResetGameHook, LuaCall ''PostResetGame'' 1]\<rparr>"
    using hookAndReset_sequence [where f = example_pass and reason = 1 and w = example_world
            and H = example_reset_host and func = None]
    by (simp add: Let_def example_pass_def example_world_def error_lines_def
        example_reset_host_def example_host_def without_redirect_def scoped_actions_def)
  have c: "hookAndReset example_reset_host None 1 example_world
       = example_world\<lparr>eng := example_engine\<lparr>numStreets := 0\<rparr>,
           trace := [HookRemove ResetGameHook, EngineCall CallResetGame,
                     HookInstall ResetGameHook]\<rparr>"
    using hookAndReset_sequence [where f = example_pass and reason = 1 and w = example_world
            and H = example_reset_host and func = None]
    by (simp add: Let_def example_pass_def example_world_def error_lines_def
        example_reset_host_def example_host_def without_redirect_def scoped_actions_def)
  have d: "hookAndReset example_reset_host (Some example_veto) 1
        (example_world\<lparr>enabledKeys := (\<lambda>k. False)\<rparr>)
       = example_world\<lparr>eng := example_engine\<lparr>numStreets := 0\<rparr>,
           enabledKeys := (\<lambda>k. False),
           trace := [HookRemove ResetGameHook, EngineCall CallResetGame,
                     HookInstall ResetGameHook]\<rparr>"
    using hookAndReset_sequence [where f = example_pass and reason = 1
            and w = "example_world\<lparr>enabledKeys := (\<lambda>k. False)\<rparr>"
            and H = example_reset_host and func = "Some example_veto"]
    by (simp add: Let_def example_pass_def example_world_def error_lines_def
        example_reset_host_def example_host_def without_redirect_def scoped_actions_def)
  have n: "numStreets (eng (example_world\<lparr>trace := [LuaCall ''ResetGame'' 1]\<rparr>)) = 2"
    by (simp add: example_world_def example_engine_def)
  from en veto a b c d n show ?thesis
    by simp
qed

section \<open>A failing callback\<close>

text \<open>
  C6.  \<open>noLuaCallError\<close> on an invalid result writes the error, its message inside
  the red banner, to the console and answers false; no error leaves it.  In
  \<open>hookAndReset\<close>, with the event enabled, a pre-callback whose call failed has the
  result of one that returned nothing, but for that line after the call: the host's
  \<open>resetGame\<close> is applied, without its redirect, to the state the callback left, and
  \<open>hook.run("PostResetGame", reason)\<close> is called in the state after it.  A
  post-callback whose call failed adds its line after the call and nothing else; the
  state it left is the result.
\<close>

theorem hookAndReset_callback_error:
  "noLuaCallError (Invalid what) w
     = (False, w\<lparr>trace := trace w @ [ConsoleLog (luaErrorText what)]\<rparr>)
   \<and> (\<exists>before after. luaErrorText what = before @ what @ after)
   \<and> error_lines (Invalid what) = [ConsoleLog (luaErrorText what)]
   \<and> (\<forall>vs. error_lines (Valid vs) = [])
   \<and> (let pre = f ''ResetGame'' reason w;
           wa = (snd pre)\<lparr>hookInstalled := hookInstalled w,
                           trace := trace w @ [LuaCall ''ResetGame'' reason]
                                      @ error_lines (fst pre)\<rparr>;
           w2 = (resetGame H (without_redirect ResetGameHook wa))
                  \<lparr>hookInstalled := hookInstalled w,
                   trace := trace wa
                              @ scoped_actions w ResetGameHook [EngineCall CallResetGame]\<rparr>;
           post = f ''PostResetGame'' reason w2;
           wp = (snd post)\<lparr>hookInstalled := hookInstalled w,
                            trace := trace w2 @ [LuaCall ''PostResetGame'' reason]
                                       @ error_lines (fst post)\<rparr>
       in (enabledKeys w ResetGame \<and> (fst pre = Invalid what \<or> fst pre = Valid []) \<longrightarrow>
             hookAndReset H (Some f) reason w = wp)
        \<and> (enabledKeys w ResetGame \<and> fst pre = Invalid what \<longrightarrow>
             trace wa = trace w @ [LuaCall ''ResetGame'' reason, ConsoleLog (luaErrorText what)])
        \<and> (enabledKeys w ResetGame
             \<and> \<not> (\<exists>vs. fst pre = Valid vs \<and> as_bool (Valid vs))
             \<and> fst post = Invalid what' \<longrightarrow>
             hookAndReset H (Some f) reason w
               = (snd post)\<lparr>hookInstalled := hookInstalled w,
                             trace := trace w2 @ [LuaCall ''PostResetGame'' reason,
                                                  ConsoleLog (luaErrorText what')]\<rparr>))"
proof -
  have l: "\<exists>before after. luaErrorText what = before @ what @ after"
    unfolding luaErrorText_def
    by (rule exI [of _ "CHR 0x1B # ''[41;1m Lua error '' @ CHR 0x1B # ''[0m'' @ CHR 0x0A # CHR 0x1B # ''[31m''"],
        rule exI [of _ "CHR 0x1B # ''[0m'' @ [CHR 0x0A]"]) simp
  have n: "noLuaCallError (Invalid what) w
     = (False, w\<lparr>trace := trace w @ [ConsoleLog (luaErrorText what)]\<rparr>)"
    by (simp add: noLuaCallError_eq)
  have e: "error_lines (Invalid what) = [ConsoleLog (luaErrorText what)]"
      "\<forall>vs. error_lines (Valid vs) = []"
    by (simp_all add: error_lines_def)
  have t: "(let pre = f ''ResetGame'' reason w;
           wa = (snd pre)\<lparr>hookInstalled := hookInstalled w,
                           trace := trace w @ [LuaCall ''ResetGame'' reason]
                                      @ error_lines (fst pre)\<rparr>;
           w2 = (resetGame H (without_redirect ResetGameHook wa))
                  \<lparr>hookInstalled := hookInstalled w,
                   trace := trace wa
                              @ scoped_actions w ResetGameHook [EngineCall CallResetGame]\<rparr>;
           post = f ''PostResetGame'' reason w2;
           wp = (snd post)\<lparr>hookInstalled := hookInstalled w,
                            trace := trace w2 @ [LuaCall ''PostResetGame'' reason]
                                       @ error_lines (fst post)\<rparr>
       in (enabledKeys w ResetGame \<and> (fst pre = Invalid what \<or> fst pre = Valid []) \<longrightarrow>
             hookAndReset H (Some f) reason w = wp)
        \<and> (enabledKeys w ResetGame \<and> fst pre = Invalid what \<longrightarrow>
             trace wa = trace w @ [LuaCall ''ResetGame'' reason, ConsoleLog (luaErrorText what)])
        \<and> (enabledKeys w ResetGame
             \<and> \<not> (\<exists>vs. fst pre = Valid vs \<and> as_bool (Valid vs))
             \<and> fst post = Invalid what' \<longrightarrow>
             hookAndReset H (Some f) reason w
               = (snd post)\<lparr>hookInstalled := hookInstalled w,
                             trace := trace w2 @ [LuaCall ''PostResetGame'' reason,
                                                  ConsoleLog (luaErrorText what')]\<rparr>))"
    using hooked_some_state [of H f reason w]
    by (auto simp add: hookAndReset_def Let_def error_lines_def scoped_actions_def)
  from n l e t show ?thesis
    by (intro conjI)
qed

text \<open>A script whose every call fails, and one that fails when called after the
  reset only, with the host whose reset leaves no streets.\<close>

theorem hookAndReset_callback_error_witness:
  "enabledKeys example_world ResetGame
   \<and> fst (example_broken ''ResetGame'' 1 example_world) = Invalid ''attempt to call a nil value''
   \<and> hookAndReset example_reset_host (Some example_broken) 1 example_world
       = example_world\<lparr>eng := example_engine\<lparr>numStreets := 0\<rparr>,
           trace := [LuaCall ''ResetGame'' 1,
                     ConsoleLog (luaErrorText ''attempt to call a nil value''),
                     HookRemove ResetGameHook, EngineCall CallResetGame,
                     HookInstall ResetGameHook, LuaCall ''PostResetGame'' 1,
                     ConsoleLog (luaErrorText ''attempt to call a nil value'')]\<rparr>
   \<and> hookAndReset example_reset_host
        (Some (\<lambda>name reason w. if name = ''PostResetGame'' then (Invalid ''late'', w)
                                 else (Valid [], w)))
        1 example_world
       = example_world\<lparr>eng := example_engine\<lparr>numStreets := 0\<rparr>,
           trace := [LuaCall ''ResetGame'' 1,
                     HookRemove ResetGameHook, EngineCall CallResetGame,
                     HookInstall ResetGameHook, LuaCall ''PostResetGame'' 1,
                     ConsoleLog (luaErrorText ''late'')]\<rparr>"
proof -
  have en: "enabledKeys example_world ResetGame"
    by (simp add: example_world_def)
  have br: "fst (example_broken ''ResetGame'' 1 example_world) = Invalid ''attempt to call a nil value''"
    by (simp add: example_broken_def)
  have a: "hookAndReset example_reset_host (Some example_broken) 1 example_world
       = example_world\<lparr>eng := example_engine\<lparr>numStreets := 0\<rparr>,
           trace := [LuaCall ''ResetGame'' 1,
                     ConsoleLog (luaErrorText ''attempt to call a nil value''),
                     HookRemove ResetGameHook, EngineCall CallResetGame,
                     HookInstall ResetGameHook, LuaCall ''PostResetGame'' 1,
                     ConsoleLog (luaErrorText ''attempt to call a nil value'')]\<rparr>"
    using hookAndReset_callback_error [where f = example_broken and reason = 1
            and w = example_world and H = example_reset_host
            and what = "''attempt to call a nil value''" and what' = "''late''"]
    by (simp add: Let_def example_broken_def example_world_def error_lines_def
        example_reset_host_def example_host_def without_redirect_def scoped_actions_def)
  have b: "hookAndReset example_reset_host
        (Some (\<lambda>name reason w. if name = ''PostResetGame'' then (Invalid ''late'', w)
                                 else (Valid [], w)))
        1 example_world
       = example_world\<lparr>eng := example_engine\<lparr>numStreets := 0\<rparr>,
           trace := [LuaCall ''ResetGame'' 1,
                     HookRemove ResetGameHook, EngineCall CallResetGame,
                     HookInstall ResetGameHook, LuaCall ''PostResetGame'' 1,
                     ConsoleLog (luaErrorText ''late'')]\<rparr>"
    using hookAndReset_callback_error [where
            f = "\<lambda>name reason w. if name = ''PostResetGame'' then (Invalid ''late'', w)
                                 else (Valid [], w)"
            and reason = 1 and w = example_world and H = example_reset_host
            and what = "''attempt to call a nil value''" and what' = "''late''"]
    by (simp add: Let_def example_world_def error_lines_def
        example_reset_host_def example_host_def without_redirect_def scoped_actions_def)
  from en br a b show ?thesis
    by simp
qed

section \<open>Creating a human for a player\<close>

lemma engine_calls_append: "engine_calls (xs @ ys) = engine_calls xs @ engine_calls ys"
  by (induction xs rule: engine_calls.induct) simp_all

lemma engine_calls_scoped: "engine_calls (scoped_actions w h [EngineCall c]) = [c]"
  by (simp add: scoped_actions_def)

text \<open>The scope in which the old human is deleted: its index is read inside the scope,
  where the host's memory is still that of the state before.\<close>

lemma delete_scope_state:
  "snd (ScopedHookRemove DeleteHumanHook
          (\<lambda>w. ((), Engine_deleteHuman H (Player_humanID (players (eng w) ply)) w)) w)
     = (deleteHuman H (Player_humanID (players (eng w) ply)) (without_redirect DeleteHumanHook w))
         \<lparr>hookInstalled := hookInstalled w,
          trace := trace w @ scoped_actions w DeleteHumanHook
                     [EngineCall (CallDeleteHuman (Player_humanID (players (eng w) ply)))]\<rparr>"
proof (cases "hookInstalled w DeleteHumanHook")
  case True
  hence "(hookInstalled w)(DeleteHumanHook := True) = hookInstalled w"
    by (simp add: fun_upd_idem)
  with True show ?thesis
    by (simp add: ScopedHookRemove_def Engine_deleteHuman_def call_out_eq without_redirect_def
        scoped_actions_def Let_def case_prod_beta)
next
  case False
  thus ?thesis
    by (simp add: ScopedHookRemove_def Engine_deleteHuman_def call_out_eq without_redirect_def
        scoped_actions_def Let_def case_prod_beta)
qed

text \<open>
  C9.  When \<open>humans::create(pos, rot, ply)\<close> returns a human, the state it returns
  is this.  If the \<open>humanID\<close> of \<open>ply\<close> was not \<open>-1\<close>, the host's \<open>deleteHuman\<close>
  was applied to that index, in the state of entry without the redirect of the
  deletion; \<open>wd\<close> is the state after it, or the state of entry.  The host's
  \<open>createHuman\<close> was then applied, for the index of \<open>ply\<close>, to \<open>wd\<close> without the
  redirect of the creation: the human is created in the state the deletion left.  The
  host handed out a slot, and in the state after the creation the side storage of the
  slot was emptied, the \<open>playerID\<close> of the human in that slot set to the index of
  \<open>ply\<close> and the \<open>humanID\<close> of \<open>ply\<close> set to the slot.  The human returned is that
  slot of the humans, so that the two references name each other, and the slot is the
  index of the human returned when it is below the capacity.  The redirects are left as
  found, and the calls into the host were the deletion, if there was one, and after it
  the creation.
\<close>

theorem humans_create_links:
  assumes "humans_create H L pos rot ply w = (Some man, w')"
  shows "let old = Player_humanID (players (eng w) ply);
             playerID = Player_getIndex L ply;
             wd = (if old \<noteq> - 1
                   then (deleteHuman H old (without_redirect DeleteHumanHook w))
                          \<lparr>hookInstalled := hookInstalled w,
                           trace := trace w @ scoped_actions w DeleteHumanHook
                                      [EngineCall (CallDeleteHuman old)]\<rparr>
                   else w);
             created = createHuman H pos rot playerID (without_redirect CreateHumanHook wd);
             humanID = fst created;
             wc = (snd created)
                    \<lparr>hookInstalled := hookInstalled w,
                     trace := trace wd @ scoped_actions w CreateHumanHook
                                [EngineCall (CallCreateHuman pos rot playerID)]\<rparr>
         in humanID \<noteq> - 1
            \<and> man = slot_ptr (Engine_humans L) (scast humanID)
            \<and> w' = update_player ply (\<lambda>r. r\<lparr>Player_humanID := humanID\<rparr>)
                     (update_human man (\<lambda>r. r\<lparr>Human_playerID := playerID\<rparr>)
                        (wc\<lparr>humanDataTables := clear_slot (humanDataTables wc) humanID\<rparr>))
            \<and> Human_playerID (humans (eng w') man) = playerID
            \<and> Player_humanID (players (eng w') ply) = humanID
            \<and> (array_fits (Engine_humans L) (maxNumberOfHumans L)
                 \<and> unat (maxNumberOfHumans L) \<le> 2 ^ 31 \<and> humanID < maxNumberOfHumans L \<longrightarrow>
                 Human_getIndex L man = Player_humanID (players (eng w') ply))
            \<and> humanDataTables w' humanID = None
            \<and> hookInstalled w' = hookInstalled w
            \<and> engine_calls (new_actions w w')
                = (if old \<noteq> - 1 then [CallDeleteHuman old] else [])
                  @ [CallCreateHuman pos rot playerID]"
proof -
  define old where "old = Player_humanID (players (eng w) ply)"
  define playerID where "playerID = Player_getIndex L ply"
  define wd where "wd = (if old \<noteq> - 1
                   then (deleteHuman H old (without_redirect DeleteHumanHook w))
                          \<lparr>hookInstalled := hookInstalled w,
                           trace := trace w @ scoped_actions w DeleteHumanHook
                                      [EngineCall (CallDeleteHuman old)]\<rparr>
                   else w)"
  define created where
    "created = createHuman H pos rot playerID (without_redirect CreateHumanHook wd)"
  define humanID where "humanID = fst created"
  define wc where "wc = (snd created)
                    \<lparr>hookInstalled := hookInstalled w,
                     trace := trace wd @ scoped_actions w CreateHumanHook
                                [EngineCall (CallCreateHuman pos rot playerID)]\<rparr>"
  define mn where "mn = slot_ptr (Engine_humans L) (scast humanID)"
  define w5 where "w5 = update_player ply (\<lambda>r. r\<lparr>Player_humanID := humanID\<rparr>)
      (update_human mn (\<lambda>r. r\<lparr>Human_playerID := playerID\<rparr>)
        (wc\<lparr>humanDataTables := clear_slot (humanDataTables wc) humanID\<rparr>))"
  have d: "(if Player_humanID (players (eng w) ply) \<noteq> - 1
            then snd (ScopedHookRemove DeleteHumanHook
                   (\<lambda>w. ((), Engine_deleteHuman H (Player_humanID (players (eng w) ply)) w)) w)
            else w) = wd"
    by (simp add: wd_def old_def delete_scope_state)
  have hd: "hookInstalled wd = hookInstalled w"
    by (simp add: wd_def)
  have c: "ScopedHookRemove CreateHumanHook (Engine_createHuman H pos rot (Player_getIndex L ply)) wd
             = (humanID, wc)"
    by (simp add: Engine_createHuman_def scoped_call_state humanID_def created_def wc_def hd
        scoped_actions_def playerID_def)
  have unfold: "humans_create H L pos rot ply w
      = (if humanID = - 1 then (None, wc) else (Some mn, w5))"
    by (simp add: humans_create_def Let_def d c mn_def w5_def playerID_def)
  with assms have ok: "humanID \<noteq> - 1" and man: "man = mn" and w': "w' = w5"
    by (auto split: if_splits)
  have t5: "trace w5 = trace w
      @ (if old \<noteq> - 1 then scoped_actions w DeleteHumanHook [EngineCall (CallDeleteHuman old)]
         else [])
      @ scoped_actions w CreateHumanHook [EngineCall (CallCreateHuman pos rot playerID)]"
    by (simp add: w5_def wc_def wd_def update_player_def update_human_def)
  have calls: "engine_calls (new_actions w w5)
      = (if old \<noteq> - 1 then [CallDeleteHuman old] else []) @ [CallCreateHuman pos rot playerID]"
    using t5
    by (simp add: new_actions_def engine_calls_append engine_calls_scoped)
  have hp: "Human_playerID (humans (eng w5) mn) = playerID"
    by (simp add: w5_def update_player_def update_human_def)
  have ph: "Player_humanID (players (eng w5) ply) = humanID"
    by (simp add: w5_def update_player_def update_human_def)
  have tb: "humanDataTables w5 humanID = None"
    by (simp add: w5_def update_player_def update_human_def clear_slot_def)
  have hi: "hookInstalled w5 = hookInstalled w"
    by (simp add: w5_def wc_def update_player_def update_human_def)
  have ix: "array_fits (Engine_humans L) (maxNumberOfHumans L)
                \<and> unat (maxNumberOfHumans L) \<le> 2 ^ 31 \<and> humanID < maxNumberOfHumans L \<longrightarrow>
                Human_getIndex L mn = humanID"
    using index_of_signed_slot [of "Engine_humans L" "maxNumberOfHumans L" humanID]
    by (simp add: Human_getIndex_def mn_def)
  have "humanID \<noteq> - 1
            \<and> man = slot_ptr (Engine_humans L) (scast humanID)
            \<and> w' = update_player ply (\<lambda>r. r\<lparr>Player_humanID := humanID\<rparr>)
                     (update_human man (\<lambda>r. r\<lparr>Human_playerID := playerID\<rparr>)
                        (wc\<lparr>humanDataTables := clear_slot (humanDataTables wc) humanID\<rparr>))
            \<and> Human_playerID (humans (eng w') man) = playerID
            \<and> Player_humanID (players (eng w') ply) = humanID
            \<and> (array_fits (Engine_humans L) (maxNumberOfHumans L)
                 \<and> unat (maxNumberOfHumans L) \<le> 2 ^ 31 \<and> humanID < maxNumberOfHumans L \<longrightarrow>
                 Human_getIndex L man = Player_humanID (players (eng w') ply))
            \<and> humanDataTables w' humanID = None
            \<and> hookInstalled w' = hookInstalled w
            \<and> engine_calls (new_actions w w')
                = (if old \<noteq> - 1 then [CallDeleteHuman old] else [])
                  @ [CallCreateHuman pos rot playerID]"
    using ok man w' calls hp ph tb hi ix
    by (simp add: mn_def [symmetric] w5_def [symmetric])
  thus ?thesis
    unfolding Let_def old_def playerID_def wd_def created_def humanID_def wc_def .
qed

text \<open>The player of slot 1 has the human of slot 2.  The host marks a deleted human
  inactive and creates in slot 2 when that slot is free, in slot 3 otherwise: the new
  human is in slot 2, which the deletion freed.\<close>

theorem humans_create_links_witness:
  "humans_create example_slot_host example_layout 0 0 0x5080 example_owner_world
     = (Some 0x6200,
        snd (humans_create example_slot_host example_layout 0 0 0x5080 example_owner_world))
   \<and> Human_playerID (humans (eng (snd (humans_create example_slot_host example_layout 0 0 0x5080
        example_owner_world))) 0x6200) = Player_getIndex example_layout 0x5080
   \<and> Player_getIndex example_layout 0x5080 = 1
   \<and> Human_getIndex example_layout 0x6200 = 2
   \<and> Player_humanID (players (eng (snd (humans_create example_slot_host example_layout 0 0 0x5080
        example_owner_world))) 0x5080) = 2
   \<and> Human_active (humans (eng (snd (humans_create example_slot_host example_layout 0 0 0x5080
        example_owner_world))) 0x6200) = 1
   \<and> fst (createHuman example_slot_host 0 0 1 example_owner_world) = 3
   \<and> engine_calls (trace (snd (humans_create example_slot_host example_layout 0 0 0x5080
        example_owner_world))) = [CallDeleteHuman 2, CallCreateHuman 0 0 1]"
proof -
  let ?r = "humans_create example_slot_host example_layout 0 0 0x5080 example_owner_world"
  have ev: "fst ?r = Some 0x6200"
      "Player_humanID (players (eng (snd ?r)) 0x5080) = 2"
      "Human_active (humans (eng (snd ?r)) 0x6200) = 1"
      "engine_calls (trace (snd ?r)) = [CallDeleteHuman 2, CallCreateHuman 0 0 1]"
    by (simp_all add: humans_create_def ScopedHookRemove_def Engine_deleteHuman_def
        Engine_createHuman_def call_out_def update_player_def update_human_def
        Player_getIndex_def slot_ptr_def Let_def example_owner_world_def example_world_def
        example_engine_def example_player_def example_human_def example_host_def
        example_slot_host_def example_layout_def clear_slot_def)
  have ix: "Player_getIndex example_layout 0x5080 = 1" "Human_getIndex example_layout 0x6200 = 2"
    by (simp_all add: Player_getIndex_def Human_getIndex_def example_layout_def)
  have late: "fst (createHuman example_slot_host 0 0 1 example_owner_world) = 3"
    by (simp add: example_slot_host_def example_host_def example_owner_world_def
        example_world_def example_engine_def example_human_def)
  have r: "?r = (Some 0x6200, snd ?r)"
    using ev(1) by (simp add: prod_eq_iff)
  have "Human_playerID (humans (eng (snd ?r)) 0x6200) = Player_getIndex example_layout 0x5080"
    using humans_create_links [OF r, unfolded Let_def]
    by - (elim conjE, assumption)
  with r ev ix late show ?thesis
    by simp
qed

section \<open>Side storage of a recycled slot\<close>

text \<open>Every creation that clears, and every removal: after it the side storage of the
  slot concerned holds no table.\<close>

lemma items_createVel_clears:
  assumes "items_createVel H L type pos vel rot w = (Inr (Some p), w')"
  shows "\<exists>i. i \<noteq> - 1 \<and> p = slot_ptr (Engine_items L) (scast i) \<and> itemDataTables w' i = None"
  using assms
  by (cases type)
     (auto simp add: items_createVel_def ScopedHookRemove_def Let_def case_prod_beta
        slot_or_null_def clear_slot_def split: if_splits)

lemma vehicles_createVel_clears:
  assumes "vehicles_createVel H L type pos vel rot color w = (Some p, w')"
  shows "\<exists>i. i \<noteq> - 1 \<and> p = slot_ptr (Engine_vehicles L) (scast i) \<and> vehicleDataTables w' i = None"
  using assms
  by (auto simp add: vehicles_createVel_def ScopedHookRemove_def Let_def case_prod_beta
        slot_or_null_def clear_slot_def split: if_splits)

lemma vehicles_create_clears:
  assumes "vehicles_create H L type pos rot color w = (Some p, w')"
  shows "\<exists>i. i \<noteq> - 1 \<and> p = slot_ptr (Engine_vehicles L) (scast i) \<and> vehicleDataTables w' i = None"
  using assms
  by (auto simp add: vehicles_create_def ScopedHookRemove_def Let_def case_prod_beta
        slot_or_null_def clear_slot_def split: if_splits)

lemma players_createBot_clears:
  assumes "players_createBot H L w = (Some p, w')"
  shows "\<exists>i. i \<noteq> - 1 \<and> p = slot_ptr (Engine_players L) (scast i) \<and> playerDataTables w' i = None"
  using assms
  by (auto simp add: players_createBot_def ScopedHookRemove_def Let_def case_prod_beta
        update_player_def clear_slot_def split: if_splits)

lemma removal_clears:
  "playerDataTables (Player_remove H L this w) (Player_getIndex L this) = None"
  "humanDataTables (Human_remove H L this w) (Human_getIndex L this) = None"
  "itemDataTables (Item_remove H L this w) (Item_getIndex L this) = None"
  "vehicleDataTables (Vehicle_remove H L this w) (Vehicle_getIndex L this) = None"
  by (simp_all add: Player_remove_def Human_remove_def Item_remove_def Vehicle_remove_def
      ScopedHookRemove_def Let_def case_prod_beta clear_slot_def)

text \<open>The deletion inside \<open>humans::create\<close> is a host delete with no clearing: the
  old human's slot keeps its table when the new human gets another slot.\<close>

lemma humans_create_keeps_old_table:
  "humanDataTables
     (snd (humans_create example_host example_layout 0 0 0x5080
             (example_owner_world\<lparr>humanDataTables := (\<lambda>i. None)(2 := Some [(''hat'', LBool True)])\<rparr>)))
     2 = Some [(''hat'', LBool True)]"
  by (simp add: humans_create_def ScopedHookRemove_def Engine_deleteHuman_def
      Engine_createHuman_def call_out_def update_player_def update_human_def clear_slot_def
      Player_getIndex_def slot_ptr_def Let_def example_owner_world_def example_world_def
      example_engine_def example_player_def example_host_def example_layout_def)

text \<open>
  C2.  The claim is that every creation and every removal of a category with side
  storage deletes and nulls the table of the slot concerned, so that the next occupant
  of a slot starts with an empty table.  The removals and the creations above do;
  \<open>items::createRope\<close> does not.  Slot 3 of the items holds a table with an entry,
  and the host hands slot 3 out again: \<open>createRope\<close> returns the proxy of slot 3 and
  \<open>getDataTable\<close> on it is the old table with its entry, where \<open>createVel\<close> from
  the same state returns the same proxy with an empty table.
\<close>

theorem items_createRope_keeps_stale_table:
  "itemDataTables example_stale_world 3 = Some [(''owner'', LString ''alice'')]
   \<and> fst (items_createRope example_host example_layout 0 0 example_stale_world) = Some 0x2060
   \<and> Item_getIndex example_layout 0x2060 = 3
   \<and> fst (Item_getDataTable example_layout 0x2060
             (snd (items_createRope example_host example_layout 0 0 example_stale_world)))
       = [(''owner'', LString ''alice'')]
   \<and> fst (items_createVel example_host example_layout (Some 0x1000) 0 None 0 example_stale_world)
       = Inr (Some 0x2060)
   \<and> fst (Item_getDataTable example_layout 0x2060
             (snd (items_createVel example_host example_layout (Some 0x1000) 0 None 0
                     example_stale_world)))
       = []"
  by (simp add: items_createRope_def items_createVel_def Item_getDataTable_def get_slot_def
      clear_slot_def slot_or_null_def slot_ptr_def Item_getIndex_def ItemType_getIndex_def
      ScopedHookRemove_def Engine_createRope_def Engine_createItem_def call_out_def Let_def
      example_stale_world_def example_world_def example_host_def example_layout_def)

end
